theory Spec2Isabelle
  imports Complex_Main "HOL-Library.List_Lexorder" "HOL-Library.Char_ord" "HOL-Library.Product_Lexorder"
begin

section \<open>Python strings and exceptions\<close>

text \<open>
  A Python \<open>str\<close> is modelled as a \<open>string\<close> whose characters are the code points
  U+0000 to U+00FF, one \<open>char\<close> per code point, so that \<open>length\<close> is Python's \<open>len\<close>.
  \<open>py_isspace\<close> is \<open>str.isspace\<close> on that range; it is also what \<open>str.strip()\<close> removes
  and what \<open>\s\<close> matches in a \<open>str\<close> pattern.
\<close>

definition py_isspace :: "char \<Rightarrow> bool" where
  "py_isspace c = (of_char c \<in> {9, 10, 11, 12, 13, 28, 29, 30, 31, 32, 133, 160 :: nat})"

definition strip :: "string \<Rightarrow> string" where
  "strip s = rev (dropWhile py_isspace (rev (dropWhile py_isspace s)))"

text \<open>
  What \<open>json.loads\<close> returns: \<open>None\<close>, \<open>bool\<close>, \<open>int\<close>, \<open>float\<close>, \<open>str\<close>, \<open>list\<close> and
  \<open>dict\<close>. A finite float is carried by its exact value; the operations applied to
  floats here (comparison with \<open>0\<close> and \<open>100\<close>, truncation by \<open>int()\<close>) are exact. A \<open>dict\<close>
  is an association list read by \<open>map_of\<close>.
\<close>

datatype pyfloat = Finite rat | NaN | PosInf | NegInf

datatype json =
    JNull
  | JBool bool
  | JInt int
  | JFloat pyfloat
  | JStr string
  | JList "json list"
  | JDict "(string \<times> json) list"

text \<open>
  Exceptions are values. The message of a \<open>ValueError\<close> raised by the parser is kept as
  structured data (which check failed, on which element) instead of the formatted text.
\<close>

datatype field_error =
    MissingOrEmpty string
  | MissingConfidence
  | ConfidenceNotNumber
  | ConfidenceOutOfRange
  | BadEffortEstimate
  | EvidenceNotArray
  | EvidenceEmpty
  | EvidenceNotObject nat
  | EvidenceMissingField nat string

text \<open>
  One entry of \<open>all_errors\<close>: the index of the element, and for an object the value of
  \<open>item.get('id', '?')\<close> and its list of reasons.
\<close>

datatype item_error =
    NotAnObject nat
  | Invalid nat json "field_error list"

datatype value_error =
    NoJsonArray
  | UnbalancedBrackets
  | ExpectedArray
  | AllFailed nat "item_error list"
  | InvalidIntLiteral
  | FloatNaNToInt

datatype pyerr =
    ValueError value_error
  | JSONDecodeError
  | TypeError
  | AttributeError
  | OverflowError
  | LLMError
  | IntegrityError
  | InterfaceError

section \<open>Array extraction (\<open>_extract_json_array\<close>)\<close>

definition fence :: string where
  "fence = [CHR 0x60, CHR 0x60, CHR 0x60]"

definition skip_json :: "string \<Rightarrow> string" where
  "skip_json s = (if take 4 s = ''json'' then drop 4 s else s)"

text \<open>
  \<open>re.sub(r"```(?:json)?\s*\n?", "", text)\<close>: scanning from the left, every occurrence of
  three backticks is removed together with a following \<open>json\<close> and the whole run of
  whitespace after it (the greedy \<open>\s*\<close> leaves nothing for \<open>\n?\<close>).
\<close>

function sub_code_fences :: "string \<Rightarrow> string" where
  "sub_code_fences [] = []"
| "sub_code_fences (c # cs) =
     (if take 3 (c # cs) = fence
      then sub_code_fences (dropWhile py_isspace (skip_json (drop 3 (c # cs))))
      else c # sub_code_fences cs)"
  by pat_completeness auto
termination
proof (relation "measure length")
  fix c :: char and cs :: string
  assume "take 3 (c # cs) = fence"
  then have "3 \<le> length (c # cs)"
    by (cases cs; cases "tl cs") (auto simp: fence_def)
  moreover have "length (skip_json (drop 3 (c # cs))) \<le> length (drop 3 (c # cs))"
    by (auto simp: skip_json_def)
  then have "length (dropWhile py_isspace (skip_json (drop 3 (c # cs)))) \<le> length (drop 3 (c # cs))"
    by (rule order_trans [OF length_dropWhile_le])
  ultimately show "(dropWhile py_isspace (skip_json (drop 3 (c # cs))), c # cs) \<in> measure length"
    by simp
qed simp_all

text \<open>\<open>text.find("[")\<close>, with \<open>None\<close> for Python's \<open>-1\<close>.\<close>

definition find_bracket :: "string \<Rightarrow> nat option" where
  "find_bracket s =
     (if CHR ''['' \<in> set s then Some (length (takeWhile (\<lambda>c. c \<noteq> CHR ''['') s)) else None)"

text \<open>
  The loop \<open>for i in range(start, len(text))\<close>: \<open>scan_brackets cs i depth\<close> is the loop at
  index \<open>i\<close> with \<open>cs = text[i:]\<close>; it returns \<open>end\<close>, or \<open>None\<close> when the loop finishes
  with \<open>end == -1\<close>.
\<close>

fun scan_brackets :: "string \<Rightarrow> nat \<Rightarrow> int \<Rightarrow> nat option" where
  "scan_brackets [] i depth = None"
| "scan_brackets (c # cs) i depth =
     (if c = CHR ''['' then scan_brackets cs (i + 1) (depth + 1)
      else if c = CHR '']'' then
        (if depth - 1 = 0 then Some (i + 1) else scan_brackets cs (i + 1) (depth - 1))
      else scan_brackets cs (i + 1) depth)"

definition extract_json_array :: "string \<Rightarrow> pyerr + string" where
  "extract_json_array raw =
     (let text = strip (sub_code_fences raw) in
      case find_bracket text of
        None \<Rightarrow> Inl (ValueError NoJsonArray)
      | Some start \<Rightarrow>
          (case scan_brackets (drop start text) start 0 of
             None \<Rightarrow> Inl (ValueError UnbalancedBrackets)
           | Some end \<Rightarrow> Inr (take (end - start) (drop start text))))"

text \<open>
  Two notions for stating what the extraction achieves. \<open>bracket_depth s\<close> counts every
  \<open>[\<close> in \<open>s\<close> as \<open>+1\<close> and every \<open>]\<close> as \<open>-1\<close>, wherever it stands (inside a JSON string
  literal as well, as the loop does). \<open>closes_at_end a\<close> says that \<open>a\<close> opens with \<open>[\<close> and
  that this count first returns to zero at the last character of \<open>a\<close>; \<open>has_fence a\<close> says
  that three consecutive backticks occur in \<open>a\<close>.
\<close>

definition bracket_depth :: "string \<Rightarrow> int" where
  "bracket_depth s = int (count_list s (CHR ''['')) - int (count_list s (CHR '']''))"

fun has_fence :: "string \<Rightarrow> bool" where
  "has_fence [] = False"
| "has_fence (c # cs) = (take 3 (c # cs) = fence \<or> has_fence cs)"

definition closes_at_end :: "string \<Rightarrow> bool" where
  "closes_at_end a =
     (a \<noteq> [] \<and> hd a = CHR ''['' \<and> bracket_depth a = 0 \<and>
      (\<forall>n \<in> {1..<length a}. 0 < bracket_depth (take n a)))"

section \<open>JSON values and the opportunity schema\<close>

record evidence_ref =
  ev_source :: string
  ev_item_title :: string
  ev_url :: string
  ev_score :: int

text \<open>
  \<open>Opportunity\<close>. \<open>competition_notes\<close> is stored as \<open>item.get("competition_notes", "")\<close>
  without any check, so it holds whatever JSON value was sent. The field \<open>generated_at\<close>
  (the clock at construction) is read by no function modelled here and is left out.
\<close>

record opportunity =
  opp_id :: string
  opp_title :: string
  opp_pain :: string
  opp_target_buyer :: string
  opp_solution_shape :: string
  opp_market_type :: string
  opp_effort_estimate :: string
  opp_monetization :: string
  opp_moat :: string
  opp_confidence :: int
  opp_evidence :: "evidence_ref list"
  opp_competition_notes :: json
  opp_run_id :: "nat option"

definition VALID_EFFORT_ESTIMATES :: "string list" where
  "VALID_EFFORT_ESTIMATES = [''weekend'', ''1-2 weeks'', ''month+'']"

definition required_str_fields :: "string list" where
  "required_str_fields =
     [''id'', ''title'', ''pain'', ''target_buyer'', ''solution_shape'',
      ''market_type'', ''effort_estimate'', ''monetization'', ''moat'']"

text \<open>
  The negation of
  \<open>field not in d or not isinstance(d[field], str) or not d[field].strip()\<close>.
\<close>

definition nonempty_str_field :: "(string \<times> json) list \<Rightarrow> string \<Rightarrow> bool" where
  "nonempty_str_field d field =
     (case map_of d field of Some (JStr s) \<Rightarrow> strip s \<noteq> [] | _ \<Rightarrow> False)"

text \<open>
  \<open>isinstance(v, (int, float))\<close> holds for \<open>bool\<close> too, and \<open>0 <= v <= 100\<close> is false
  for NaN and the infinities.
\<close>

definition confidence_errors :: "(string \<times> json) list \<Rightarrow> field_error list" where
  "confidence_errors d =
     (case map_of d ''confidence'' of
        None \<Rightarrow> [MissingConfidence]
      | Some (JInt n) \<Rightarrow> (if 0 \<le> n \<and> n \<le> 100 then [] else [ConfidenceOutOfRange])
      | Some (JBool b) \<Rightarrow> []
      | Some (JFloat (Finite r)) \<Rightarrow> (if 0 \<le> r \<and> r \<le> 100 then [] else [ConfidenceOutOfRange])
      | Some (JFloat _) \<Rightarrow> [ConfidenceOutOfRange]
      | Some _ \<Rightarrow> [ConfidenceNotNumber])"

text \<open>
  \<open>d.get("effort_estimate") not in VALID_EFFORT_ESTIMATES\<close> hashes the value: a list or
  a dict is unhashable and the test raises \<open>TypeError\<close>.
\<close>

definition effort_errors :: "(string \<times> json) list \<Rightarrow> pyerr + field_error list" where
  "effort_errors d =
     (case map_of d ''effort_estimate'' of
        None \<Rightarrow> Inr []
      | Some (JList _) \<Rightarrow> Inl TypeError
      | Some (JDict _) \<Rightarrow> Inl TypeError
      | Some (JStr s) \<Rightarrow> Inr (if s \<in> set VALID_EFFORT_ESTIMATES then [] else [BadEffortEstimate])
      | Some _ \<Rightarrow> Inr [BadEffortEstimate])"

definition evidence_entry_errors :: "nat \<times> json \<Rightarrow> field_error list" where
  "evidence_entry_errors p =
     (case snd p of
        JDict ev \<Rightarrow>
          map (EvidenceMissingField (fst p))
            (filter (\<lambda>ef. \<not> nonempty_str_field ev ef) [''source'', ''item_title'', ''url''])
      | _ \<Rightarrow> [EvidenceNotObject (fst p)])"

definition evidence_errors :: "(string \<times> json) list \<Rightarrow> field_error list" where
  "evidence_errors d =
     (case map_of d ''evidence'' of
        Some (JList evs) \<Rightarrow>
          (if evs = [] then [EvidenceEmpty]
           else concat (map evidence_entry_errors (enumerate 0 evs)))
      | _ \<Rightarrow> [EvidenceNotArray])"

definition validate_opportunity_dict :: "(string \<times> json) list \<Rightarrow> pyerr + field_error list" where
  "validate_opportunity_dict d =
     (let errors =
            map MissingOrEmpty (filter (\<lambda>field. \<not> nonempty_str_field d field) required_str_fields)
            @ confidence_errors d
      in case effort_errors d of
           Inl e \<Rightarrow> Inl e
         | Inr ee \<Rightarrow> Inr (errors @ ee @ evidence_errors d))"

subsection \<open>The builtin \<open>int()\<close>\<close>

definition is_digit :: "char \<Rightarrow> bool" where
  "is_digit c = (48 \<le> (of_char c :: nat) \<and> (of_char c :: nat) \<le> 57)"

definition digit_val :: "char \<Rightarrow> int" where
  "digit_val c = int (of_char c) - 48"

text \<open>
  The digits after the first one: single underscores are allowed between digits only.
\<close>

fun parse_digits :: "string \<Rightarrow> int \<Rightarrow> int option" where
  "parse_digits [] acc = Some acc"
| "parse_digits [c] acc = (if is_digit c then Some (10 * acc + digit_val c) else None)"
| "parse_digits (c # d # ds) acc =
     (if is_digit c then parse_digits (d # ds) (10 * acc + digit_val c)
      else if c = CHR ''_'' \<and> is_digit d then parse_digits ds (10 * acc + digit_val d)
      else None)"

definition parse_unsigned :: "string \<Rightarrow> int option" where
  "parse_unsigned s =
     (case s of
        [] \<Rightarrow> None
      | c # cs \<Rightarrow> if is_digit c then parse_digits cs (digit_val c) else None)"

text \<open>
  \<open>int(s)\<close> for a string: surrounding whitespace is dropped, one sign is allowed, the rest
  is a decimal literal. (Interpreters that limit the length of such a literal raise the
  same \<open>ValueError\<close> beyond the limit; the limit is not modelled.)
\<close>

definition int_of_str :: "string \<Rightarrow> int option" where
  "int_of_str s =
     (case strip s of
        [] \<Rightarrow> None
      | c # cs \<Rightarrow>
          if c = CHR ''-'' then map_option uminus (parse_unsigned cs)
          else if c = CHR ''+'' then parse_unsigned cs
          else parse_unsigned (c # cs))"

definition trunc_rat :: "rat \<Rightarrow> int" where
  "trunc_rat r = (if 0 \<le> r then \<lfloor>r\<rfloor> else \<lceil>r\<rceil>)"

fun py_int :: "json \<Rightarrow> pyerr + int" where
  "py_int (JInt n) = Inr n"
| "py_int (JBool b) = Inr (if b then 1 else 0)"
| "py_int (JFloat (Finite r)) = Inr (trunc_rat r)"
| "py_int (JFloat NaN) = Inl (ValueError FloatNaNToInt)"
| "py_int (JFloat PosInf) = Inl OverflowError"
| "py_int (JFloat NegInf) = Inl OverflowError"
| "py_int (JStr s) = (case int_of_str s of None \<Rightarrow> Inl (ValueError InvalidIntLiteral) | Some n \<Rightarrow> Inr n)"
| "py_int JNull = Inl TypeError"
| "py_int (JList xs) = Inl TypeError"
| "py_int (JDict d) = Inl TypeError"

subsection \<open>Conversion and \<open>parse_opportunities_json\<close>\<close>

text \<open>
  \<open>d.get(k, default)\<close>, and the reading of a field that validation has shown to be a
  string (conversion runs only on elements whose error list is empty).
\<close>

definition dict_get :: "(string \<times> json) list \<Rightarrow> string \<Rightarrow> json \<Rightarrow> json" where
  "dict_get d k dflt = (case map_of d k of None \<Rightarrow> dflt | Some v \<Rightarrow> v)"

definition str_of :: "json \<Rightarrow> string" where
  "str_of v = (case v of JStr s \<Rightarrow> s | _ \<Rightarrow> [])"

text \<open>A loop whose body may raise: the first exception ends it.\<close>

fun traverse :: "('a \<Rightarrow> pyerr + 'b) \<Rightarrow> 'a list \<Rightarrow> pyerr + 'b list" where
  "traverse f [] = Inr []"
| "traverse f (x # xs) =
     (case f x of
        Inl e \<Rightarrow> Inl e
      | Inr y \<Rightarrow> (case traverse f xs of Inl e \<Rightarrow> Inl e | Inr ys \<Rightarrow> Inr (y # ys)))"

definition convert_evidence :: "json \<Rightarrow> pyerr + evidence_ref" where
  "convert_evidence ev =
     (case ev of
        JDict e \<Rightarrow>
          (case py_int (dict_get e ''score'' (JInt 0)) of
             Inl err \<Rightarrow> Inl err
           | Inr n \<Rightarrow>
               Inr \<lparr>ev_source = str_of (dict_get e ''source'' (JStr [])),
                    ev_item_title = str_of (dict_get e ''item_title'' (JStr [])),
                    ev_url = str_of (dict_get e ''url'' (JStr [])),
                    ev_score = n\<rparr>)
      | _ \<Rightarrow> Inl AttributeError)"

definition evidence_list :: "(string \<times> json) list \<Rightarrow> json list" where
  "evidence_list d = (case dict_get d ''evidence'' (JList []) of JList evs \<Rightarrow> evs | _ \<Rightarrow> [])"

definition convert_opportunity :: "(string \<times> json) list \<Rightarrow> pyerr + opportunity" where
  "convert_opportunity d =
     (case traverse convert_evidence (evidence_list d) of
        Inl e \<Rightarrow> Inl e
      | Inr evidence \<Rightarrow>
          (case py_int (dict_get d ''confidence'' JNull) of
             Inl e \<Rightarrow> Inl e
           | Inr c \<Rightarrow>
               Inr \<lparr>opp_id = str_of (dict_get d ''id'' JNull),
                    opp_title = str_of (dict_get d ''title'' JNull),
                    opp_pain = str_of (dict_get d ''pain'' JNull),
                    opp_target_buyer = str_of (dict_get d ''target_buyer'' JNull),
                    opp_solution_shape = str_of (dict_get d ''solution_shape'' JNull),
                    opp_market_type = str_of (dict_get d ''market_type'' JNull),
                    opp_effort_estimate = str_of (dict_get d ''effort_estimate'' JNull),
                    opp_monetization = str_of (dict_get d ''monetization'' JNull),
                    opp_moat = str_of (dict_get d ''moat'' JNull),
                    opp_confidence = c,
                    opp_evidence = evidence,
                    opp_competition_notes = dict_get d ''competition_notes'' (JStr []),
                    opp_run_id = None\<rparr>))"

text \<open>
  The loop over \<open>enumerate(data)\<close> with its two accumulators \<open>opportunities\<close> and
  \<open>all_errors\<close>.
\<close>

fun parse_items ::
  "(nat \<times> json) list \<Rightarrow> opportunity list \<Rightarrow> item_error list
     \<Rightarrow> pyerr + opportunity list \<times> item_error list" where
  "parse_items [] opportunities all_errors = Inr (opportunities, all_errors)"
| "parse_items ((i, item) # rest) opportunities all_errors =
     (case item of
        JDict d \<Rightarrow>
          (case validate_opportunity_dict d of
             Inl e \<Rightarrow> Inl e
           | Inr errors \<Rightarrow>
               if errors \<noteq> [] then
                 parse_items rest opportunities
                   (all_errors @ [Invalid i (dict_get d ''id'' (JStr ''?'')) errors])
               else
                 (case convert_opportunity d of
                    Inl e \<Rightarrow> Inl e
                  | Inr opp \<Rightarrow> parse_items rest (opportunities @ [opp]) all_errors))
      | _ \<Rightarrow> parse_items rest opportunities (all_errors @ [NotAnObject i]))"

text \<open>
  The part of \<open>parse_opportunities_json\<close> after deserialisation. The second component of
  the result is what the warning logs when some elements were dropped.
\<close>

definition parse_data :: "json \<Rightarrow> pyerr + opportunity list \<times> item_error list" where
  "parse_data v =
     (case v of
        JList data \<Rightarrow>
          (case parse_items (enumerate 0 data) [] [] of
             Inl e \<Rightarrow> Inl e
           | Inr (opportunities, all_errors) \<Rightarrow>
               if all_errors \<noteq> [] \<and> opportunities = []
               then Inl (ValueError (AllFailed (length data) all_errors))
               else Inr (opportunities, all_errors))
      | _ \<Rightarrow> Inl (ValueError ExpectedArray))"

text \<open>
  \<open>json.loads\<close> belongs to the standard library; it is a parameter, with \<open>None\<close> for
  \<open>json.JSONDecodeError\<close>.
\<close>

definition parse_opportunities_json ::
  "(string \<Rightarrow> json option) \<Rightarrow> string \<Rightarrow> pyerr + opportunity list \<times> item_error list" where
  "parse_opportunities_json loads raw_text =
     (case extract_json_array raw_text of
        Inl e \<Rightarrow> Inl e
      | Inr json_str \<Rightarrow>
          (case loads json_str of
             None \<Rightarrow> Inl JSONDecodeError
           | Some v \<Rightarrow> parse_data v))"

section \<open>Items (\<open>models.py\<close>)\<close>

datatype Source =
    GITHUB_RELEASE
  | GITHUB_ISSUE
  | GITHUB_DISCUSSION
  | HACKER_NEWS
  | RSS
  | NVD_CVE

text \<open>
  A Python number is an \<open>int\<close> (a \<open>bool\<close> counts as one) or a \<open>float\<close>.
\<close>

datatype pynum = NInt int | NFloat pyfloat

text \<open>
  \<open>Item\<close>. \<open>metadata\<close> is an open \<open>dict\<close>; its values are taken from the JSON values, which
  is what the store can serialise. \<open>score\<close> is annotated \<open>int\<close>, but the scorer assigns it the
  outcome of arithmetic on metadata values, which is a float when one of them is.
  \<open>collected_at\<close> is read by no function modelled here.
\<close>

record item =
  item_source :: Source
  item_source_id :: string
  item_url :: string
  item_title :: string
  item_body :: string
  item_metadata :: "(string \<times> json) list"
  item_score :: pynum

section \<open>The opportunity store (\<open>storage/db.py\<close>)\<close>

text \<open>
  The SQLite tables that the opportunity functions touch, each as the list of its rows in
  insertion order, with the counter of its \<open>AUTOINCREMENT\<close> key. Timestamps are the ISO
  strings the code stores, compared as SQLite compares \<open>TEXT\<close>: lexicographically.
\<close>

record digest_row =
  dg_id :: nat
  dg_digest_type :: string
  dg_content :: string
  dg_item_count :: nat
  dg_generated_at :: string

record run_row =
  run_id :: nat
  run_digest_id :: "nat option"
  run_item_count :: nat
  run_opportunity_count :: nat
  run_generated_at :: string

record opportunity_row =
  row_id :: string
  row_run_id :: nat
  row_title :: string
  row_pain :: string
  row_target_buyer :: string
  row_solution_shape :: string
  row_market_type :: string
  row_effort_estimate :: string
  row_monetization :: string
  row_moat :: string
  row_confidence :: int
  row_competition_notes :: json
  row_generated_at :: string

record evidence_row =
  evr_id :: nat
  evr_opportunity_id :: string
  evr_run_id :: nat
  evr_source :: string
  evr_item_title :: string
  evr_url :: string
  evr_score :: int

record storage =
  digests :: "digest_row list"
  digests_seq :: nat
  opportunity_runs :: "run_row list"
  runs_seq :: nat
  opportunities :: "opportunity_row list"
  opportunity_evidence :: "evidence_row list"
  evidence_seq :: nat

definition empty_storage :: storage where
  "empty_storage =
     \<lparr>digests = [], digests_seq = 0, opportunity_runs = [], runs_seq = 0,
      opportunities = [], opportunity_evidence = [], evidence_seq = 0\<rparr>"

definition save_digest :: "storage \<Rightarrow> string \<Rightarrow> string \<Rightarrow> nat \<Rightarrow> string \<Rightarrow> storage" where
  "save_digest st digest_type content item_count now =
     st\<lparr>digests := digests st @
            [\<lparr>dg_id = digests_seq st + 1, dg_digest_type = digest_type, dg_content = content,
              dg_item_count = item_count, dg_generated_at = now\<rparr>],
        digests_seq := digests_seq st + 1\<rparr>"

text \<open>
  What binding a Python value to a statement parameter does: an \<open>int\<close> outside 64 bits
  raises \<open>OverflowError\<close>, a list or dict cannot be bound, and \<open>None\<close> (as well as a NaN,
  which SQLite stores as \<open>NULL\<close>) violates \<open>NOT NULL\<close>.
\<close>

definition int64 :: "int \<Rightarrow> bool" where
  "int64 n = (- (2 ^ 63) \<le> n \<and> n < 2 ^ 63)"

definition bind_not_null :: "json \<Rightarrow> pyerr option" where
  "bind_not_null v =
     (case v of
        JNull \<Rightarrow> Some IntegrityError
      | JFloat NaN \<Rightarrow> Some IntegrityError
      | JInt n \<Rightarrow> (if int64 n then None else Some OverflowError)
      | JList _ \<Rightarrow> Some InterfaceError
      | JDict _ \<Rightarrow> Some InterfaceError
      | _ \<Rightarrow> None)"

text \<open>
  \<open>INSERT INTO opportunity_evidence\<close> for the evidence of one opportunity, in order.
  The result carries the store as the connection sees it, also after an exception.
\<close>

fun insert_evidence :: "storage \<Rightarrow> string \<Rightarrow> nat \<Rightarrow> evidence_ref list \<Rightarrow> pyerr option \<times> storage" where
  "insert_evidence st oid rid [] = (None, st)"
| "insert_evidence st oid rid (ev # evs) =
     (if \<not> int64 (ev_score ev) then (Some OverflowError, st)
      else insert_evidence
             (st\<lparr>opportunity_evidence := opportunity_evidence st @
                    [\<lparr>evr_id = evidence_seq st + 1, evr_opportunity_id = oid, evr_run_id = rid,
                      evr_source = ev_source ev, evr_item_title = ev_item_title ev,
                      evr_url = ev_url ev, evr_score = ev_score ev\<rparr>],
                 evidence_seq := evidence_seq st + 1\<rparr>)
             oid rid evs)"

text \<open>
  \<open>INSERT OR REPLACE INTO opportunities\<close>: a row with the same primary key
  \<open>(id, run_id)\<close> is deleted and the new row inserted. The evidence rows that refer to
  the key stay, since the key they refer to exists again when the statement ends.
\<close>

definition replace_opportunity :: "storage \<Rightarrow> opportunity_row \<Rightarrow> storage" where
  "replace_opportunity st r =
     st\<lparr>opportunities :=
          filter (\<lambda>x. \<not> (row_id x = row_id r \<and> row_run_id x = row_run_id r)) (opportunities st)
          @ [r]\<rparr>"

definition opportunity_to_row :: "opportunity \<Rightarrow> nat \<Rightarrow> string \<Rightarrow> opportunity_row" where
  "opportunity_to_row opp rid now =
     \<lparr>row_id = opp_id opp, row_run_id = rid, row_title = opp_title opp, row_pain = opp_pain opp,
      row_target_buyer = opp_target_buyer opp, row_solution_shape = opp_solution_shape opp,
      row_market_type = opp_market_type opp, row_effort_estimate = opp_effort_estimate opp,
      row_monetization = opp_monetization opp, row_moat = opp_moat opp,
      row_confidence = opp_confidence opp, row_competition_notes = opp_competition_notes opp,
      row_generated_at = now\<rparr>"

fun insert_opportunities :: "storage \<Rightarrow> nat \<Rightarrow> string \<Rightarrow> opportunity list \<Rightarrow> pyerr option \<times> storage" where
  "insert_opportunities st rid now [] = (None, st)"
| "insert_opportunities st rid now (opp # opps) =
     (if \<not> int64 (opp_confidence opp) then (Some OverflowError, st)
      else case bind_not_null (opp_competition_notes opp) of
        Some e \<Rightarrow> (Some e, st)
      | None \<Rightarrow>
          (case insert_evidence (replace_opportunity st (opportunity_to_row opp rid now))
                  (opp_id opp) rid (opp_evidence opp) of
             (Some e, st') \<Rightarrow> (Some e, st')
           | (None, st') \<Rightarrow> insert_opportunities st' rid now opps))"

text \<open>
  \<open>save_opportunity_run\<close>. \<open>now\<close> is the clock reading taken at its start. With
  \<open>foreign_keys=ON\<close> the insertion of the run fails when \<open>digest_id\<close> names no digest.
\<close>

definition save_opportunity_run ::
  "storage \<Rightarrow> opportunity list \<Rightarrow> nat \<Rightarrow> nat option \<Rightarrow> string \<Rightarrow> (pyerr + nat) \<times> storage" where
  "save_opportunity_run st opps item_count digest_id now =
     (if (case digest_id of None \<Rightarrow> False | Some d \<Rightarrow> d \<notin> dg_id ` set (digests st))
      then (Inl IntegrityError, st)
      else
        let rid = runs_seq st + 1;
            st1 = st\<lparr>opportunity_runs := opportunity_runs st @
                       [\<lparr>run_id = rid, run_digest_id = digest_id, run_item_count = item_count,
                         run_opportunity_count = length opps, run_generated_at = now\<rparr>],
                     runs_seq := rid\<rparr>
        in case insert_opportunities st1 rid now opps of
             (Some e, st2) \<Rightarrow> (Inl e, st2)
           | (None, st2) \<Rightarrow> (Inr rid, st2))"

subsection \<open>\<open>get_opportunity_trends\<close>\<close>

record data_point =
  dp_run_id :: nat
  dp_confidence :: int
  dp_generated_at :: string

record trend =
  trend_id :: string
  trend_title :: string
  data_points :: "data_point list"

definition point_of :: "opportunity_row \<Rightarrow> data_point" where
  "point_of r =
     \<lparr>dp_run_id = row_run_id r, dp_confidence = row_confidence r,
      dp_generated_at = row_generated_at r\<rparr>"

text \<open>
  The body of the loop over the rows. \<open>trends\<close> is a \<open>dict\<close> keyed by id; it is kept as the
  list of its values in insertion order, which is what \<open>list(trends.values())\<close> returns.
\<close>

definition trends_step :: "trend list \<Rightarrow> opportunity_row \<Rightarrow> trend list" where
  "trends_step trends row =
     (let trends' =
            (if row_id row \<in> trend_id ` set trends then trends
             else trends @ [\<lparr>trend_id = row_id row, trend_title = row_title row, data_points = []\<rparr>])
      in map (\<lambda>t. if trend_id t = row_id row
                    then t\<lparr>data_points := data_points t @ [point_of row],
                           trend_title := row_title row\<rparr>
                    else t) trends')"

text \<open>\<open>ORDER BY o.id, o.generated_at ASC\<close>.\<close>

definition trend_rows :: "storage \<Rightarrow> opportunity_row list" where
  "trend_rows st = sort_key (\<lambda>r. (row_id r, row_generated_at r)) (opportunities st)"

definition get_opportunity_trends :: "storage \<Rightarrow> trend list" where
  "get_opportunity_trends st = foldl trends_step [] (trend_rows st)"

text \<open>
  The invariant of that loop after the rows \<open>xs\<close>: one entry per id seen, holding the points
  of the rows with that id in the order met, and the title of the last of them.
\<close>

definition trends_inv :: "trend list \<Rightarrow> opportunity_row list \<Rightarrow> bool" where
  "trends_inv tr xs =
     (distinct (map trend_id tr) \<and> trend_id ` set tr = row_id ` set xs \<and>
      (\<forall>t \<in> set tr.
          data_points t = map point_of (filter (\<lambda>r. row_id r = trend_id t) xs) \<and>
          trend_title t = row_title (last (filter (\<lambda>r. row_id r = trend_id t) xs))))"

section \<open>The completion client and the repair loop (\<open>synthesizer/engine.py\<close>)\<close>

text \<open>
  The arguments of one \<open>complete\<close> call and its response. The temperatures \<open>0.2\<close> and
  \<open>0.1\<close> are kept as the fractions they denote.
\<close>

record request =
  req_system_prompt :: string
  req_user_prompt :: string
  req_temperature :: rat
  req_max_tokens :: nat

record llm_response =
  resp_text :: string
  resp_input_tokens :: nat
  resp_output_tokens :: nat
  resp_model :: string

text \<open>
  A provider answers a request in view of every request made before it, with \<open>None\<close> for
  \<open>LLMError\<close>. The state of the client is the list of requests made so far.
\<close>

type_synonym llm = "request list \<Rightarrow> request \<Rightarrow> llm_response option"

definition complete :: "llm \<Rightarrow> request list \<Rightarrow> request \<Rightarrow> llm_response option \<times> request list" where
  "complete provider reqs req = (provider reqs req, reqs @ [req])"

text \<open>
  \<open>STRUCTURED_OPPORTUNITY_REPAIR.format(error=..., raw=...)\<close>, from
  \<open>synthesizer/prompts.py\<close>.
\<close>

definition STRUCTURED_OPPORTUNITY_REPAIR :: "string \<Rightarrow> string \<Rightarrow> string" where
  "STRUCTURED_OPPORTUNITY_REPAIR error raw =
     ''Your previous response was not valid JSON. Here is the error:'' @ [CHR 10, CHR 10]
     @ error @ [CHR 10, CHR 10]
     @ ''Here is what you returned (truncated to 500 chars):'' @ [CHR 10, CHR 10]
     @ raw @ [CHR 10, CHR 10]
     @ ''Please fix your response. Return ONLY a valid JSON array of opportunity objects.'' @ [CHR 10]
     @ ''No markdown, no commentary, no code fences. Just the JSON array.'' @ [CHR 10]"

text \<open>
  What the method takes from outside this module: the provider, \<open>json.loads\<close>, the system
  prompt, the rendering of the item batch into the first user prompt
  (\<open>STRUCTURED_OPPORTUNITY_USER\<close> over \<open>_format_items_for_prompt\<close>), \<open>str()\<close> of an
  exception, and the text summary stored as the digest (\<open>_opportunities_to_text\<close>).
\<close>

record collaborators =
  co_llm :: llm
  co_loads :: "string \<Rightarrow> json option"
  co_system :: string
  co_user_prompt :: "item list \<Rightarrow> string"
  co_str_error :: "pyerr \<Rightarrow> string"
  co_summary :: "opportunity list \<Rightarrow> string"

text \<open>
  \<open>except (ValueError, json.JSONDecodeError)\<close> and
  \<open>except (ValueError, json.JSONDecodeError, LLMError)\<close>.
\<close>

fun caught_first :: "pyerr \<Rightarrow> bool" where
  "caught_first (ValueError v) = True"
| "caught_first JSONDecodeError = True"
| "caught_first e = False"

definition caught_second :: "pyerr \<Rightarrow> bool" where
  "caught_second e = (caught_first e \<or> e = LLMError)"

text \<open>
  \<open>SELECT id FROM digests ORDER BY id DESC LIMIT 1\<close>.
\<close>

definition latest_digest_id :: "storage \<Rightarrow> nat option" where
  "latest_digest_id st = (if digests st = [] then None else Some (Max (dg_id ` set (digests st))))"

text \<open>
  The method after a successful parse: nothing is stored for an empty list; otherwise the
  digest and the run are written and \<open>run_id\<close> is attached to the returned objects. An
  exception of the store leaves the method.
\<close>

definition store_opportunities ::
  "collaborators \<Rightarrow> item list \<Rightarrow> string \<Rightarrow> string \<Rightarrow> opportunity list \<Rightarrow> storage
     \<Rightarrow> (pyerr + opportunity list option) \<times> storage" where
  "store_opportunities co items now_digest now_run opps st =
     (if opps = [] then (Inr (Some []), st)
      else
        let st1 = save_digest st ''opportunities'' (co_summary co opps) (length items) now_digest
        in case save_opportunity_run st1 opps (length items) (latest_digest_id st1) now_run of
             (Inl e, st2) \<Rightarrow> (Inl e, st2)
           | (Inr rid, st2) \<Rightarrow> (Inr (Some (map (\<lambda>opp. opp\<lparr>opp_run_id := Some rid\<rparr>) opps)), st2))"

text \<open>
  \<open>structured_opportunity_report\<close>. \<open>items\<close> is what
  \<open>get_items_last_n_days(days=14, min_score=35)\<close> returned, \<open>now_digest\<close> and \<open>now_run\<close> are
  the clock readings of the two writes. The result is \<open>Inl e\<close> when the exception \<open>e\<close>
  leaves the method, \<open>Inr None\<close> for the returned \<open>None\<close>, \<open>Inr (Some opps)\<close> for a
  returned list; with it come the requests made and the store.
\<close>

definition first_request :: "collaborators \<Rightarrow> item list \<Rightarrow> request" where
  "first_request co items =
     \<lparr>req_system_prompt = co_system co, req_user_prompt = co_user_prompt co items,
      req_temperature = 2 / 10, req_max_tokens = 3000\<rparr>"

definition repair_request :: "collaborators \<Rightarrow> pyerr \<Rightarrow> string \<Rightarrow> request" where
  "repair_request co first_error raw_text =
     \<lparr>req_system_prompt = co_system co,
      req_user_prompt = STRUCTURED_OPPORTUNITY_REPAIR (co_str_error co first_error) (take 500 raw_text),
      req_temperature = 1 / 10, req_max_tokens = 3000\<rparr>"

definition structured_opportunity_report ::
  "collaborators \<Rightarrow> item list \<Rightarrow> string \<Rightarrow> string \<Rightarrow> request list \<Rightarrow> storage
     \<Rightarrow> (pyerr + opportunity list option) \<times> request list \<times> storage" where
  "structured_opportunity_report co items now_digest now_run reqs st =
     (if items = [] then (Inr (Some []), reqs, st)
      else
        case complete (co_llm co) reqs (first_request co items) of
          (None, reqs1) \<Rightarrow> (Inr None, reqs1, st)
        | (Some response, reqs1) \<Rightarrow>
            (case parse_opportunities_json (co_loads co) (resp_text response) of
               Inr (opps, warnings) \<Rightarrow>
                 (case store_opportunities co items now_digest now_run opps st of
                    (r, st') \<Rightarrow> (r, reqs1, st'))
             | Inl first_error \<Rightarrow>
                 if \<not> caught_first first_error then (Inl first_error, reqs1, st)
                 else
                   (case complete (co_llm co) reqs1
                           (repair_request co first_error (resp_text response)) of
                      (None, reqs2) \<Rightarrow> (Inr None, reqs2, st)
                    | (Some repair_response, reqs2) \<Rightarrow>
                        (case parse_opportunities_json (co_loads co) (resp_text repair_response) of
                           Inr (opps, warnings) \<Rightarrow>
                             (case store_opportunities co items now_digest now_run opps st of
                                (r, st') \<Rightarrow> (r, reqs2, st'))
                         | Inl second_error \<Rightarrow>
                             if caught_second second_error then (Inr None, reqs2, st)
                             else (Inl second_error, reqs2, st)))))"

section \<open>Regular expressions (\<open>re.search\<close>)\<close>

text \<open>
  The patterns of the scorer use literals, \<open>.\<close>, character sets, \<open>\s\<close>, \<open>\w\<close>, \<open>\d\<close>, \<open>\b\<close>,
  \<open>$\<close>, groups with alternatives and the repetitions \<open>?\<close>, \<open>*\<close>, \<open>+\<close>, \<open>{m,n}\<close>. A group
  serves only to delimit; \<open>re.search\<close> is used for its truth value, so what matters is
  whether some match exists.
\<close>

datatype cls = CChar char | CSpace | CWord | CDigit

datatype rx =
    Str string
  | Dot
  | In "cls list"
  | Cat "rx list"
  | Alt "rx list"
  | Rep nat "nat option" rx
  | WordB
  | EndS

abbreviation Opt :: "rx \<Rightarrow> rx" where
  "Opt r \<equiv> Rep 0 (Some 1) r"

abbreviation Star :: "rx \<Rightarrow> rx" where
  "Star r \<equiv> Rep 0 None r"

abbreviation Plus :: "rx \<Rightarrow> rx" where
  "Plus r \<equiv> Rep 1 None r"

text \<open>
  \<open>\w\<close> on the code points below 256: letters, digits and other numeric characters, and
  the underscore.
\<close>

definition is_word :: "char \<Rightarrow> bool" where
  "is_word c =
     (let n = (of_char c :: nat) in
      48 \<le> n \<and> n \<le> 57 \<or> 65 \<le> n \<and> n \<le> 90 \<or> 97 \<le> n \<and> n \<le> 122 \<or> n = 95 \<or>
      n \<in> {170, 178, 179, 181, 185, 186, 188, 189, 190} \<or>
      192 \<le> n \<and> n \<le> 214 \<or> 216 \<le> n \<and> n \<le> 246 \<or> 248 \<le> n)"

fun in_cls :: "cls \<Rightarrow> char \<Rightarrow> bool" where
  "in_cls (CChar k) c = (c = k)"
| "in_cls CSpace c = py_isspace c"
| "in_cls CWord c = is_word c"
| "in_cls CDigit c = is_digit c"

text \<open>
  A position in the text: the character before it, if any, and the text from it on.
  \<open>m r s\<close> lists the positions at which a match of \<open>r\<close> that starts at \<open>s\<close> can end.
\<close>

type_synonym mstate = "char option \<times> string"

definition step_char :: "(char \<Rightarrow> bool) \<Rightarrow> mstate \<Rightarrow> mstate list" where
  "step_char P s = (case snd s of [] \<Rightarrow> [] | c # cs \<Rightarrow> if P c then [(Some c, cs)] else [])"

fun str_match :: "string \<Rightarrow> mstate \<Rightarrow> mstate list" where
  "str_match [] s = [s]"
| "str_match (k # ks) (p, []) = []"
| "str_match (k # ks) (p, c # cs) = (if c = k then str_match ks (Some c, cs) else [])"

text \<open>
  \<open>\b\<close>: exactly one of the two neighbours is a word character, the ends of the text
  counting as none. \<open>$\<close>: the end of the text, or just before a newline that ends it.
\<close>

definition at_boundary :: "mstate \<Rightarrow> bool" where
  "at_boundary s =
     ((case fst s of None \<Rightarrow> False | Some c \<Rightarrow> is_word c)
        \<noteq> (case snd s of [] \<Rightarrow> False | c # cs \<Rightarrow> is_word c))"

definition at_end :: "mstate \<Rightarrow> bool" where
  "at_end s = (snd s = [] \<or> snd s = [CHR 10])"

text \<open>
  Repetition of a step \<open>f\<close> between \<open>lo\<close> and \<open>hi\<close> times. Every repeated part of the
  patterns consumes at least one character, so a round that consumes nothing is dropped
  and the rounds are bounded by the length of the remaining text.
\<close>

fun rep :: "(mstate \<Rightarrow> mstate list) \<Rightarrow> nat \<Rightarrow> nat \<Rightarrow> nat option \<Rightarrow> mstate \<Rightarrow> mstate list" where
  "rep f 0 lo hi s = (if lo = 0 then [s] else [])"
| "rep f (Suc n) lo hi s =
     (if lo = 0 then [s] else []) @
     (if hi = Some 0 then []
      else concat (map (rep f n (lo - 1) (map_option (\<lambda>h. h - 1) hi))
                     (filter (\<lambda>s'. length (snd s') < length (snd s)) (f s))))"

primrec m :: "rx \<Rightarrow> mstate \<Rightarrow> mstate list" where
  "m (Str ks) = str_match ks"
| "m Dot = step_char (\<lambda>c. c \<noteq> CHR 10)"
| "m (In ks) = step_char (\<lambda>c. \<exists>k \<in> set ks. in_cls k c)"
| "m (Cat rs) = foldr (\<lambda>f k s. concat (map k (f s))) (map m rs) (\<lambda>s. [s])"
| "m (Alt rs) = (\<lambda>s. concat (map (\<lambda>f. f s) (map m rs)))"
| "m (Rep lo hi r) = (\<lambda>s. rep (m r) (Suc (length (snd s))) lo hi s)"
| "m WordB = (\<lambda>s. if at_boundary s then [s] else [])"
| "m EndS = (\<lambda>s. if at_end s then [s] else [])"

fun search_from :: "rx \<Rightarrow> char option \<Rightarrow> string \<Rightarrow> bool" where
  "search_from r p [] = (m r (p, []) \<noteq> [])"
| "search_from r p (c # cs) = (m r (p, c # cs) \<noteq> [] \<or> search_from r (Some c) cs)"

definition re_search :: "rx \<Rightarrow> string \<Rightarrow> bool" where
  "re_search r text = search_from r None text"

section \<open>The pattern tables (\<open>filters/scorer.py\<close>)\<close>

text \<open>
  The three tables, pattern by pattern in the order of the source. The character set of
  the pattern that begins with \<open>\bthread\<close> in \<open>LOW_SIGNAL_PATTERNS\<close> holds only code points
  above 255; on the texts modelled here it is the empty set.
\<close>

definition HIGH_SIGNAL_PATTERNS :: "(rx \<times> int) list" where
  "HIGH_SIGNAL_PATTERNS =
     [(Cat [WordB, Str ''breaking'', Plus (In [CSpace]), Str ''change''], 25),
      (Cat [WordB, Str ''deprecate'', Opt (In [CChar (CHR ''d''), CChar (CHR ''s'')]), WordB],
       20),
      (Cat [WordB, Str ''migrat'', Alt [Str ''e'', Str ''ion'', Str ''ing''], WordB], 15),
      (Cat [WordB, Str ''remov'', Alt [Cat [Str ''e'', Opt (In [CChar (CHR ''d''),
       CChar (CHR ''s'')])], Str ''ing''], WordB, Rep 0 (Some 30) Dot, WordB, Alt [Str ''api'',
       Str ''support'', Str ''feature'']], 15),
      (Cat [WordB, Str ''end'', Opt (In [CChar (CHR ''-''), CChar (CHR '' '')]), Str ''of'',
       Opt (In [CChar (CHR ''-''), CChar (CHR '' '')]), Str ''life'', WordB], 20),
      (Cat [WordB, Str ''roll'', Opt (Str ''ed''), Star (In [CSpace]), Str ''back'', WordB], 25),
      (Cat [WordB, Str ''reverte'', Opt (Str ''d''), WordB], 20),
      (Cat [WordB, Str ''post'', Opt (In [CChar (CHR ''-''), CChar (CHR '' '')]),
       Str ''mortem'', WordB], 30),
      (Cat [WordB, Str ''incident'', Plus (In [CSpace]), Alt [Str ''report'', Str ''review''],
       WordB], 25),
      (Cat [WordB, Str ''outage'', WordB], 20),
      (Cat [WordB, Str ''fail'', Alt [Str ''ed'', Str ''ure'', Str ''ing''], WordB], 10),
      (Cat [WordB, Str ''regression'', WordB], 15),
      (Cat [WordB, Str ''rewrit'', Alt [Str ''e'', Str ''ten'', Str ''ing''], WordB], 15),
      (Cat [WordB, Str ''rearchitect''], 15),
      (Cat [WordB, Str ''from'', Plus (In [CSpace]), Str ''scratch'', WordB], 10),
      (Cat [WordB, Str ''major'', Plus (In [CSpace]), Alt [Str ''version'', Str ''release'',
       Str ''update''], WordB], 10),
      (Cat [WordB, Str ''v'', Plus (In [CDigit]), Str ''.0.0'', WordB], 10),
      (Cat [WordB, Str ''frustrat'', Alt [Str ''ed'', Str ''ing'', Str ''ion''], WordB], 10),
      (Cat [WordB, Str ''workaround'', WordB], 10),
      (Cat [WordB, Str ''bug'', WordB, Star Dot, WordB, Alt [Str ''critical'', Str ''severe'',
       Str ''major''], WordB], 15),
      (Cat [WordB, Str ''security'', Plus (In [CSpace]), Alt [Str ''vulnerabilit'',
       Str ''advis'', Str ''patch'', Str ''fix'']], 20),
      (Cat [WordB, Str ''CVE-'', Rep 4 (Some 4) (In [CDigit])], 20),
      (Cat [WordB, Str ''performance'', Plus (In [CSpace]), Alt [Str ''regression'',
       Str ''degradation'', Str ''issue'']], 15),
      (Cat [WordB, Str ''memory'', Plus (In [CSpace]), Str ''leak'', WordB], 15),
      (Cat [WordB, Plus (In [CDigit]), Str ''x'', Plus (In [CSpace]), Alt [Str ''faster'',
       Str ''slower''], WordB], 10),
      (Cat [WordB, Str ''benchmark''], 8),
      (Cat [WordB, Str ''architecture'', Plus (In [CSpace]), Str ''decision'', WordB], 10),
      (Cat [WordB, Str ''lesson'', Opt (Str ''s''), Plus (In [CSpace]), Str ''learned'', WordB],
       15),
      (Cat [WordB, Str ''why'', Plus (In [CSpace]), Str ''we'', Plus (In [CSpace]),
       Alt [Str ''chose'', Str ''switched'', Str ''moved'', Str ''left'', Str ''abandoned''],
       WordB], 15)]"

definition ENTERPRISE_SIGNAL_PATTERNS :: "(rx \<times> int) list" where
  "ENTERPRISE_SIGNAL_PATTERNS =
     [(Cat [WordB, Str ''i'', Plus (In [CSpace]), Str ''wish'', Plus (In [CSpace]),
       Alt [Cat [Str ''there'', Plus (In [CSpace]), Str ''was''], Cat [Str ''there'',
       Plus (In [CSpace]), Str ''were''], Cat [Str ''we'', Plus (In [CSpace]), Str ''had''],
       Cat [Str ''we'', Plus (In [CSpace]), Str ''could'']], WordB], 15),
      (Cat [WordB, Str ''i'', Plus (In [CSpace]), Str ''wish'', Plus (In [CSpace]),
       Plus (In [CWord]), Plus (In [CSpace]), Str ''had'', WordB], 20),
      (Cat [WordB, Str ''why'', Plus (In [CSpace]), Alt [Str (''doesn'' @ [CHR 0x27] @ ''t''),
       Str (''can'' @ [CHR 0x27] @ ''t''), Str (''won'' @ [CHR 0x27] @ ''t''),
       Str (''isn'' @ [CHR 0x27] @ ''t'')], WordB], 10),
      (Cat [WordB, Str ''feature'', Plus (In [CSpace]), Str ''request'', WordB], 15),
      (Cat [WordB, Str ''would'', Plus (In [CSpace]), Str ''be'', Plus (In [CSpace]),
       Alt [Str ''great'', Str ''nice'', Str ''helpful'', Str ''awesome''], Plus (In [CSpace]),
       Alt [Str ''if'', Str ''to''], WordB], 10),
      (Cat [WordB, Str ''missing'', Plus (In [CSpace]), Str ''feature'', WordB], 20),
      (Cat [WordB, Str ''no'', Plus (In [CSpace]), Alt [Str ''way'', Str ''option'',
       Str ''ability''], Plus (In [CSpace]), Str ''to'', WordB], 15),
      (Cat [WordB, Str ''need'', Opt (Str ''s''), Plus (In [CSpace]), Alt [Str ''a'',
       Str ''an'', Str ''better''], Plus (In [CSpace]), Alt [Str ''way'', Str ''option'',
       Str ''tool'', Str ''solution''], WordB], 15),
      (Cat [WordB, Str (''can'' @ [CHR 0x27] @ ''t''), Plus (In [CSpace]), Str ''believe'',
       Plus (In [CSpace]), Str (''there'' @ [CHR 0x27] @ ''s''), Plus (In [CSpace]), Str ''no'',
       WordB], 25),
      (Cat [WordB, Opt (Cat [Str ''github'', Plus (In [CSpace])]), Str ''action'',
       Opt (Str ''s''), Plus (In [CSpace]), Alt [Str ''is'', Str ''are''], Plus (In [CSpace]),
       Alt [Str ''slow'', Str ''broken'', Str ''flaky'', Str ''unreliable'', Str ''painful'']],
       25),
      (Cat [WordB, Str ''workflow'', Plus (In [CSpace]), Alt [Str ''is'', Cat [Str ''keep'',
       Opt (Str ''s'')]], Plus (In [CSpace]), Alt [Str ''fail'', Str ''break'', Str ''timeout'',
       Str ''slow'', Str ''flaky'']], 20),
      (Cat [WordB, Str ''CI'', Plus (In [CSpace]), Alt [Str ''is'', Cat [Str ''keep'',
       Opt (Str ''s'')]], Plus (In [CSpace]), Alt [Str ''slow'', Str ''flaky'', Str ''broken'',
       Str ''failing'', Str ''unreliable'']], 20),
      (Cat [WordB, Str ''pipeline'', Plus (In [CSpace]), Alt [Str ''is'', Cat [Str ''keep'',
       Opt (Str ''s'')]], Plus (In [CSpace]), Alt [Str ''slow'', Str ''break'', Str ''fail'',
       Str ''flaky'']], 15),
      (Cat [WordB, Str ''action'', Opt (Str ''s''), Plus (In [CSpace]), Alt [Str ''timeout'',
       Cat [Str ''time'', Opt (Str ''d''), Plus (In [CSpace]), Str ''out'']], WordB], 15),
      (Cat [WordB, Str ''runner'', Plus (In [CSpace]), Alt [Str ''is'', Str ''are''],
       Plus (In [CSpace]), Alt [Str ''slow'', Str ''unavailable'', Str ''down''], WordB], 15),
      (Cat [WordB, Str ''self'', In [CChar (CHR ''-''), CChar (CHR '' '')], Str ''hosted'',
       Plus (In [CSpace]), Str ''runner''], 10),
      (Cat [WordB, Str ''workflow'', Plus (In [CSpace]), Alt [Str ''yaml'', Str ''yml'',
       Str ''syntax'', Str ''config''], WordB, Star Dot, WordB, Alt [Str ''confus'',
       Str ''complex'', Str ''hard'', Str ''painful'']], 15),
      (Cat [WordB, Str ''cache'', Plus (In [CSpace]), Alt [Str ''miss'', Str ''invalid'',
       Cat [Str ''not'', Plus (In [CSpace]), Str ''work''], Str ''broken'', Str ''slow''],
       WordB], 15),
      (Cat [WordB, Str ''artifact'', Plus (In [CSpace]), Alt [Str ''upload'', Str ''download''],
       Plus (In [CSpace]), Alt [Str ''slow'', Str ''fail'', Str ''broken'', Str ''limit''],
       WordB], 15),
      (Cat [WordB, Str ''manual'', Opt (Str ''ly''), Plus (In [CSpace]), Alt [Str ''approv'',
       Str ''review'', Str ''deploy'', Str ''merge'', Str ''tag'', Str ''release'',
       Str ''update'', Str ''bump'']], 15),
      (Cat [WordB, Str ''repetitive'', Plus (In [CSpace]), Alt [Str ''task'', Str ''step'',
       Str ''process'', Str ''workflow'', Str ''work''], WordB], 15),
      (Cat [WordB, Str ''toil'', WordB], 10),
      (Cat [WordB, Str ''automat'', Alt [Str ''e'', Str ''ion'', Str ''ically''], WordB,
       Star Dot, WordB, Alt [Str ''wish'', Str ''should'', Str ''want'', Str ''need'',
       Str ''could''], WordB], 15),
      (Cat [WordB, Str ''bot'', Plus (In [CSpace]), Alt [Str ''that'', Str ''to'', Str ''for'',
       Str ''which''], Plus (In [CSpace]), Plus (In [CWord])], 10),
      (Cat [WordB, Str ''code'', Plus (In [CSpace]), Str ''review'', Plus (In [CSpace]),
       Alt [Str ''is'', Cat [Str ''take'', Opt (Str ''s'')], Str ''slow'', Str ''painful'',
       Str ''bottleneck'', Str ''broken'', Str ''tedious'']], 25),
      (Cat [WordB, Str ''PR'', Plus (In [CSpace]), Alt [Str ''review'', Str ''approval''],
       Plus (In [CSpace]), Alt [Str ''is'', Cat [Str ''take'', Opt (Str ''s'')], Str ''slow'',
       Str ''blocked'', Str ''bottleneck'', Str ''waiting'']], 25),
      (Cat [WordB, Str ''review'', Plus (In [CSpace]), Str ''fatigue'', WordB], 20),
      (Cat [WordB, Str ''stale'', Plus (In [CSpace]), Str ''PR'', Opt (In [CChar (CHR ''s'')]),
       WordB], 15),
      (Cat [WordB, Str ''merge'', Plus (In [CSpace]), Alt [Cat [Str ''conflict'',
       Opt (In [CChar (CHR ''s'')])], Str ''queue'', Str ''hell'', Str ''nightmare''], WordB],
       15),
      (Cat [WordB, Str ''check'', Opt (In [CChar (CHR ''s'')]), Plus (In [CSpace]),
       Alt [Str ''are'', Str ''is''], Plus (In [CSpace]), Alt [Str ''slow'', Str ''redundant'',
       Str ''flaky'', Str ''failing''], WordB], 15),
      (Cat [WordB, Str ''CODEOWNERS'', WordB, Star Dot, WordB, Alt [Str ''broken'',
       Str (''doesn'' @ [CHR 0x27] @ ''t''), Str ''wrong'', Str ''confus'', Str ''limit'',
       Str ''problem'', Str ''issue'', Str ''pain'']], 20),
      (Cat [WordB, Str ''CODEOWNERS'', WordB], 10),
      (Cat [WordB, Str ''auto'', Opt (In [CChar (CHR ''-''), CChar (CHR '' '')]), Str ''merge'',
       WordB], 10),
      (Cat [WordB, Str ''merge'', Plus (In [CSpace]), Str ''queue'', WordB], 10),
      (Cat [WordB, Str ''zero'', In [CChar (CHR ''-''), CChar (CHR '' '')], Str ''day'', WordB],
       25),
      (Cat [WordB, Str ''critical'', Plus (In [CSpace]), Str ''vulnerabilit''], 25),
      (Cat [WordB, Str ''ransomware'', WordB], 15),
      (Cat [WordB, Str ''patch'', Plus (In [CSpace]), Str ''management'', WordB], 20),
      (Cat [WordB, Str ''security'', Plus (In [CSpace]), Alt [Str ''posture'', Str ''baseline'',
       Str ''hardening''], WordB], 15),
      (Cat [WordB, Str ''threat'', Plus (In [CSpace]), Alt [Str ''model'', Str ''detection'',
       Str ''intelligence''], WordB], 15),
      (Cat [WordB, Str ''penetration'', Plus (In [CSpace]), Str ''test''], 10),
      (Cat [WordB, Str ''security'', Plus (In [CSpace]), Str ''audit'', WordB], 20),
      (Cat [WordB, Str ''incident'', Plus (In [CSpace]), Str ''response'', WordB], 15),
      (Cat [WordB, Str ''vulnerability'', Plus (In [CSpace]), Alt [Str ''manage'', Str ''scan'',
       Str ''remediat'', Str ''priorit'']], 15),
      (Cat [WordB, Str ''SOC'', Star (In [CSpace]), Str ''2'', WordB], 20),
      (Cat [WordB, Str ''SOC'', Star (In [CSpace]), In [CChar (CHR ''1''), CChar (CHR ''2'')],
       Plus (In [CSpace]), Str ''type'', Plus (In [CSpace]), In [CChar (CHR ''1''),
       CChar (CHR ''2'')], WordB], 25),
      (Cat [WordB, Str ''ISO'', Star (In [CSpace]), Str ''27001'', WordB], 20),
      (Cat [WordB, Str ''HIPAA'', WordB], 20),
      (Cat [WordB, Str ''GDPR'', WordB], 15),
      (Cat [WordB, Str ''FedRAMP'', WordB], 20),
      (Cat [WordB, Str ''PCI'', In [CChar (CHR ''-''), CChar (CHR '' '')], Str ''DSS'', WordB],
       20),
      (Cat [WordB, Str ''compliance'', Plus (In [CSpace]), Alt [Str ''automation'',
       Str ''drift'', Str ''monitoring'', Str ''report'', Str ''check'', Str ''audit'',
       Str ''gap'', Str ''requirement'', Str ''polic'']], 20),
      (Cat [WordB, Str ''audit'', Plus (In [CSpace]), Alt [Str ''trail'', Str ''log'',
       Str ''evidence'', Str ''report''], WordB], 15),
      (Cat [WordB, Str ''policy'', In [CChar (CHR ''-''), CChar (CHR '' '')], Str ''as'',
       In [CChar (CHR ''-''), CChar (CHR '' '')], Str ''code'', WordB], 20),
      (Cat [WordB, Str ''regulatory'', Plus (In [CSpace]), Alt [Str ''compliance'',
       Str ''requirement''], WordB], 15),
      (Cat [WordB, Str ''compliance'', Plus (In [CSpace]), Alt [Str ''violation'',
       Str ''finding''], WordB], 20),
      (Cat [WordB, Str ''terraform'', WordB, Star Dot, WordB, Alt [Str ''drift'', Str ''state'',
       Str ''pain'', Str ''broken'', Str ''slow'', Str ''issue'', Str ''problem''], WordB], 15),
      (Cat [WordB, Str ''terraform'', WordB], 8),
      (Cat [WordB, Str ''infrastructure'', In [CChar (CHR ''-''), CChar (CHR '' '')],
       Str ''as'', In [CChar (CHR ''-''), CChar (CHR '' '')], Str ''code'', WordB], 10),
      (Cat [WordB, Str ''IaC'', WordB], 10),
      (Cat [WordB, Str ''kubernetes'', WordB, Star Dot, WordB, Alt [Str ''pain'',
       Str ''complex'', Str ''hard'', Str ''config'', Str ''security'', Str ''cost''], WordB],
       15),
      (Cat [WordB, Str ''k8s'', WordB, Star Dot, WordB, Alt [Str ''pain'', Str ''complex'',
       Str ''hard'', Str ''config'', Str ''security'', Str ''cost''], WordB], 15),
      (Cat [WordB, Str ''helm'', WordB, Star Dot, WordB, Alt [Str ''chart'', Str ''pain'',
       Str ''complex'', Str ''broken''], WordB], 10),
      (Cat [WordB, Str ''ansible'', WordB, Star Dot, WordB, Alt [Str ''pain'', Str ''slow'',
       Str ''complex'', Str ''broken''], WordB], 10),
      (Cat [WordB, Str ''configuration'', Plus (In [CSpace]), Alt [Str ''drift'',
       Str ''management'', Str ''sprawl''], WordB], 15),
      (Cat [WordB, Str ''cloud'', Plus (In [CSpace]), Alt [Str ''cost'', Str ''spend'',
       Str ''waste'', Str ''optimization'', Str ''governance''], WordB], 15),
      (Cat [WordB, Str ''FinOps'', WordB], 15),
      (Cat [WordB, Str ''cloud'', Plus (In [CSpace]), Str ''native'', WordB, Star Dot, WordB,
       Alt [Str ''security'', Str ''compliance'', Str ''governance''], WordB], 10),
      (Cat [WordB, Str ''observability'', WordB], 10),
      (Cat [WordB, Str ''monitoring'', Plus (In [CSpace]), Alt [Str ''gap'', Cat [Str ''blind'',
       Plus (In [CSpace]), Str ''spot''], Cat [Str ''alert'', Plus (In [CSpace]),
       Str ''fatigue'']], WordB], 15),
      (Cat [WordB, Str ''alert'', Plus (In [CSpace]), Str ''fatigue'', WordB], 20),
      (Cat [WordB, Str ''on'', In [CChar (CHR ''-''), CChar (CHR '' '')], Str ''call'',
       Plus (In [CSpace]), Alt [Str ''rotation'', Str ''burden'', Str ''fatigue'',
       Str ''pain''], WordB], 15),
      (Cat [WordB, Str ''incident'', Plus (In [CSpace]), Alt [Str ''management'',
       Str ''coordination'', Str ''retrospective''], WordB], 15),
      (Cat [WordB, Str ''SLO'', WordB, Star Dot, WordB, Alt [Str ''track'', Str ''monitor'',
       Str ''breach'', Str ''burn''], WordB], 15),
      (Cat [WordB, Str ''SLI'', WordB, Star Dot, WordB, Alt [Str ''defin'', Str ''measur'',
       Str ''track''], WordB], 10),
      (Cat [WordB, Str ''mean'', Plus (In [CSpace]), Str ''time'', Plus (In [CSpace]),
       Str ''to'', Plus (In [CSpace]), Alt [Str ''recover'', Str ''detect'', Str ''resolve''],
       WordB], 15),
      (Cat [WordB, Str ''MTTR'', WordB], 10),
      (Cat [WordB, Str ''secret'', Opt (In [CChar (CHR ''s'')]), Plus (In [CSpace]),
       Alt [Str ''leak'', Str ''expos'', Str ''rotat'', Str ''scan'', Str ''detect'',
       Str ''manage'']], 20),
      (Cat [WordB, Str ''secret'', Opt (Str ''s''), Plus (In [CSpace]), Str ''management'',
       WordB], 15),
      (Cat [WordB, Str ''vault'', WordB, Star Dot, WordB, Alt [Str ''pain'', Str ''complex'',
       Str ''config'', Str ''issue''], WordB], 10),
      (Cat [WordB, Str ''secret'', Plus (In [CSpace]), Str ''rotation'', WordB], 15),
      (Cat [WordB, Str ''credential'', Plus (In [CSpace]), Alt [Str ''leak'', Str ''rotat'',
       Str ''manag'', Str ''sprawl''], WordB], 15),
      (Cat [WordB, Str ''API'', Plus (In [CSpace]), Str ''key'', Plus (In [CSpace]),
       Alt [Str ''rotat'', Str ''manag'', Str ''leak'', Str ''expos''], WordB], 15),
      (Cat [WordB, Str ''SBOM'', WordB], 15),
      (Cat [WordB, Str ''supply'', Plus (In [CSpace]), Str ''chain'', Plus (In [CSpace]),
       Alt [Str ''security'', Str ''attack'', Str ''risk'', Str ''integrity'']], 20),
      (Cat [WordB, Str ''dependency'', Plus (In [CSpace]), Alt [Str ''confusion'',
       Str ''hijack''], WordB], 20),
      (Cat [WordB, Str ''package'', Plus (In [CSpace]), Alt [Str ''integrity'',
       Str ''provenance'', Str ''signing''], WordB], 15),
      (Cat [WordB, Str ''SLSA'', WordB], 15),
      (Cat [WordB, Str ''software'', Plus (In [CSpace]), Str ''composition'',
       Plus (In [CSpace]), Str ''analysis'', WordB], 15),
      (Cat [WordB, Str ''SCA'', WordB, Star Dot, WordB, Alt [Str ''tool'', Str ''scan'',
       Str ''result''], WordB], 10),
      (Cat [WordB, Str ''dependency'', Plus (In [CSpace]), Alt [Str ''vulnerabilit'',
       Str ''audit'', Str ''scan'', Str ''update'', Str ''hell'', Str ''management'']], 20),
      (Cat [WordB, Str ''license'', Plus (In [CSpace]), Alt [Str ''compliance'', Str ''check'',
       Str ''scan'', Str ''violation'', Str ''audit'']], 15),
      (Cat [WordB, Str ''secret'', Plus (In [CSpace]), Str ''scanning'', WordB, Star Dot, WordB,
       Alt [Str ''miss'', Str ''false'', Str ''limit'', Str (''doesn'' @ [CHR 0x27] @ ''t''),
       Cat [Str ''not'', Plus (In [CSpace]), Str ''enough'']]], 20),
      (Cat [WordB, Str ''dependabot'', WordB, Star Dot, WordB, Alt [Str ''slow'', Str ''noisy'',
       Str ''miss'', Str (''doesn'' @ [CHR 0x27] @ ''t''), Str ''broken'', Str ''limit'',
       Str ''annoying'']], 20),
      (Cat [WordB, Str ''access'', Plus (In [CSpace]), Alt [Str ''control'', Str ''management'',
       Str ''review'', Str ''governance''], WordB], 15),
      (Cat [WordB, Str ''privilege'', Plus (In [CSpace]), Alt [Str ''escalation'',
       Str ''management'', Str ''creep''], WordB], 20),
      (Cat [WordB, Str ''least'', Plus (In [CSpace]), Str ''privilege'', WordB], 15),
      (Cat [WordB, Str ''IAM'', WordB, Star Dot, WordB, Alt [Str ''complex'', Str ''pain'',
       Str ''audit'', Str ''review''], WordB], 15),
      (Cat [WordB, Str ''SSO'', WordB, Star Dot, WordB, Alt [Str ''integration'', Str ''pain'',
       Str ''issue'', Str ''broken''], WordB], 10),
      (Cat [WordB, Str ''RBAC'', WordB], 10),
      (Cat [WordB, Str ''flaky'', Plus (In [CSpace]), Str ''test''], 20),
      (Cat [WordB, Str ''test'', Plus (In [CSpace]), Alt [Str ''coverage'', Str ''gap'',
       Str ''flak'', Str ''automation'', Str ''infrastructure''], WordB], 15),
      (Cat [WordB, Str ''testing'', Plus (In [CSpace]), Alt [Str ''pain'', Str ''bottleneck'',
       Str ''slow'', Str ''manual'', Str ''burden''], WordB], 15),
      (Cat [WordB, Str ''code'', Plus (In [CSpace]), Str ''quality'', WordB, Star Dot, WordB,
       Alt [Str ''enforce'', Str ''automat'', Str ''gate'', Str ''check''], WordB], 15),
      (Cat [WordB, Str ''static'', Plus (In [CSpace]), Str ''analysis'', WordB], 10),
      (Cat [WordB, Str ''SAST'', WordB], 10),
      (Cat [WordB, Str ''DAST'', WordB], 10),
      (Cat [WordB, Str ''technical'', Plus (In [CSpace]), Str ''debt'', WordB], 10),
      (Cat [WordB, Str ''code'', Plus (In [CSpace]), Str ''coverage'', WordB, Star Dot, WordB,
       Alt [Str ''enforce'', Str ''requir'', Str ''gate'', Str ''low''], WordB], 15),
      (Cat [WordB, Str ''developer'', Plus (In [CSpace]), Str ''productivity'', WordB], 10),
      (Cat [WordB, Str ''engineering'', Plus (In [CSpace]), Str ''velocity'', WordB], 10),
      (Cat [WordB, Str ''developer'', Plus (In [CSpace]), Alt [Str ''platform'', Str ''portal'',
       Cat [Str ''self'', In [CChar (CHR ''-''), CChar (CHR '' '')], Str ''service'']], WordB],
       15),
      (Cat [WordB, Str ''platform'', Plus (In [CSpace]), Str ''engineering'', WordB], 15),
      (Cat [WordB, Str ''internal'', Plus (In [CSpace]), Str ''developer'', Plus (In [CSpace]),
       Str ''platform'', WordB], 15),
      (Cat [WordB, Str ''golden'', Plus (In [CSpace]), Str ''path'', WordB], 10),
      (Cat [WordB, Str ''deploy'', Plus (In [CSpace]), Alt [Str ''frequency'',
       Cat [Str ''lead'', Plus (In [CSpace]), Str ''time''], Str ''time''], WordB], 10),
      (Cat [WordB, Str ''DORA'', Plus (In [CSpace]), Str ''metrics'', WordB], 20),
      (Cat [WordB, Str ''developer'', Plus (In [CSpace]), Str ''experience'', WordB], 10),
      (Cat [WordB, Str ''DX'', WordB, Plus (In [CSpace]), Alt [Str ''is'', Str ''sucks'',
       Str ''poor'', Str ''bad'', Str ''terrible'', Str ''awful'', Str ''needs'']], 20),
      (Cat [WordB, Str ''onboarding'', Plus (In [CSpace]), Alt [Str ''is'', Cat [Str ''take'',
       Opt (Str ''s'')], Str ''slow'', Str ''painful'', Str ''difficult'', Str ''hard'',
       Str ''complex'']], 15),
      (Cat [WordB, Str ''dev'', Plus (In [CSpace]), Alt [Str ''environment'', Str ''setup'',
       Str ''config''], Plus (In [CSpace]), Alt [Str ''is'', Cat [Str ''take'',
       Opt (Str ''s'')], Str ''painful'', Str ''slow'', Str ''broken'', Str ''complex'']], 15),
      (Cat [WordB, Alt [Str (''doesn'' @ [CHR 0x27] @ ''t''),
       Str (''don'' @ [CHR 0x27] @ ''t''), Str (''can'' @ [CHR 0x27] @ ''t''), Str ''no''],
       Plus (In [CSpace]), Alt [Str ''integrat'', Str ''connect'', Str ''sync'',
       Cat [Str ''work'', Plus (In [CSpace]), Str ''with'']], WordB], 20),
      (Cat [WordB, Str ''missing'', Plus (In [CSpace]), Str ''integration'', WordB], 20),
      (Cat [WordB, Alt [Str ''jira'', Str ''linear'', Str ''notion'', Str ''slack'',
       Str ''teams'', Str ''discord''], Plus (In [CSpace]), Alt [Str ''integration'',
       Str ''sync'', Str ''connect'', Str ''bridge'']], 15),
      (Cat [WordB, Str ''no'', Plus (In [CSpace]), Alt [Str ''native'', Cat [Str ''built'',
       Opt (In [CChar (CHR ''-''), CChar (CHR '' '')]), Str ''in'']], Plus (In [CSpace]),
       Alt [Str ''support'', Str ''integration'', Str ''feature''], WordB], 20),
      (Cat [WordB, Str ''API'', Plus (In [CSpace]), Alt [Str ''limitation'', Str ''missing'',
       Str ''gap'', Str (''doesn'' @ [CHR 0x27] @ ''t''), Str ''insufficient'',
       Cat [Str ''rate'', Plus (In [CSpace]), Str ''limit'']]], 15),
      (Cat [WordB, Str ''webhook'', Opt (In [CChar (CHR ''s'')]), Plus (In [CSpace]),
       Alt [Str ''missing'', Str ''unreliable'', Str ''limitation'', Str ''delay'',
       Str ''broken'']], 15),
      (Cat [WordB, Str ''monorepo'', WordB, Star Dot, WordB, Alt [Str ''pain'', Str ''slow'',
       Str ''problem'', Str ''issue'', Str ''hard'', Str ''scale'', Str ''limit'',
       Str (''doesn'' @ [CHR 0x27] @ ''t'')]], 15),
      (Cat [WordB, Str ''monorepo'', WordB], 8),
      (Cat [WordB, Str ''code'', Plus (In [CSpace]), Str ''own'', Alt [Str ''er'',
       Str ''ership''], WordB, Star Dot, WordB, Alt [Str ''confus'', Str ''broken'',
       Str ''limit'', Str (''doesn'' @ [CHR 0x27] @ ''t''), Str ''wrong'', Str ''pain'']], 15),
      (Cat [WordB, Str ''large'', Plus (In [CSpace]), Alt [Str ''repo'', Str ''repository'',
       Str ''codebase''], WordB, Star Dot, WordB, Alt [Str ''slow'', Str ''pain'',
       Str ''problem'', Str ''scale'']], 15),
      (Cat [WordB, Str ''notification'', Opt (In [CChar (CHR ''s'')]), Plus (In [CSpace]),
       Alt [Str ''noise'', Str ''overload'', Str ''flood'', Cat [Str ''too'',
       Plus (In [CSpace]), Str ''many''], Str ''useless'', Str ''overwhelm'']], 20),
      (Cat [WordB, Str ''release'', Plus (In [CSpace]), Alt [Str ''process'',
       Str ''management'', Str ''automation''], WordB, Star Dot, WordB, Alt [Str ''pain'',
       Str ''manual'', Str ''tedious'', Str ''complex'']], 15),
      (Cat [WordB, Str ''changelog'', Plus (In [CSpace]), Alt [Str ''generat'', Str ''automat'',
       Str ''maintain''], WordB], 10),
      (Cat [WordB, Str ''release'', Plus (In [CSpace]), Str ''note'', Opt (Str ''s''), WordB,
       Star Dot, WordB, Alt [Str ''manual'', Str ''automat'', Str ''generat'',
       Str ''tedious'']], 10)]"

definition LOW_SIGNAL_PATTERNS :: "(rx \<times> int) list" where
  "LOW_SIGNAL_PATTERNS =
     [(Cat [WordB, Str ''excited'', Plus (In [CSpace]), Str ''to'', Plus (In [CSpace]),
       Str ''announce'', WordB], - 15),
      (Cat [WordB, Str ''game'', Opt (In [CChar (CHR ''-''), CChar (CHR '' '')]),
       Str ''changer'', WordB], - 20),
      (Cat [WordB, Str ''revolution'', Alt [Str ''ary'', Str ''ize''], WordB], - 15),
      (Cat [WordB, Str ''unlock'', Plus (In [CSpace]), Opt (Cat [Str ''the'',
       Plus (In [CSpace])]), Str ''power'', WordB], - 15),
      (Cat [WordB, Str ''10x'', Plus (In [CSpace]), Alt [Str ''developer'', Str ''engineer'',
       Str ''productivity''], WordB], - 20),
      (Cat [WordB, Str ''synerg''], - 20),
      (Cat [WordB, Str ''delighted'', WordB], - 10),
      (Cat [WordB, Str ''this'', Plus (In [CSpace]), Str ''is'', Plus (In [CSpace]),
       Str ''huge'', WordB], - 10),
      (Cat [WordB, Str ''you'', Plus (In [CSpace]), Str (''won'' @ [CHR 0x27] @ ''t''),
       Plus (In [CSpace]), Str ''believe'', WordB], - 20),
      (Cat [WordB, Str ''mind'', Opt (In [CChar (CHR ''-''), CChar (CHR '' '')]), Str ''blow'',
       Alt [Str ''n'', Str ''ing''], WordB], - 15),
      (Cat [WordB, Str ''hot'', Plus (In [CSpace]), Str ''take'', WordB], - 10),
      (Cat [WordB, Str ''my'', Plus (In [CSpace]), Str ''thoughts'', Plus (In [CSpace]),
       Str ''on'', WordB], - 5),
      (Cat [WordB, Str ''unpopular'', Plus (In [CSpace]), Str ''opinion'', WordB], - 10),
      (Cat [WordB, Str ''thread'', Star (In [CSpace]), In [], Star (In [CSpace]), EndS], - 10),
      (Cat [WordB, Str (''we'' @ [CHR 0x27] @ ''re''), Plus (In [CSpace]), Str ''hiring'',
       WordB], - 15),
      (Cat [WordB, Str ''join'', Plus (In [CSpace]), Str ''our'', Plus (In [CSpace]),
       Str ''team'', WordB], - 15),
      (Cat [WordB, Str ''check'', Plus (In [CSpace]), Str ''out'', Plus (In [CSpace]),
       Str ''my'', Plus (In [CSpace]), Alt [Str ''app'', Str ''action'', Str ''tool'',
       Str ''project'', Str ''extension''], WordB], - 20),
      (Cat [WordB, Str ''just'', Plus (In [CSpace]), Alt [Str ''published'', Str ''released'',
       Str ''launched'', Str ''shipped''], Plus (In [CSpace]), Alt [Str ''my'', Str ''our'',
       Str ''a''], Plus (In [CSpace]), Alt [Str ''app'', Str ''action'', Str ''tool''], WordB],
       - 15),
      (Cat [WordB, Str ''introducing'', Plus (In [CSpace]), Alt [Str ''my'', Str ''our''],
       Plus (In [CSpace]), Opt (Cat [Str ''new'', Plus (In [CSpace])]), Alt [Str ''app'',
       Str ''action'', Str ''tool''], WordB], - 15),
      (Cat [WordB, Str ''show'', Plus (In [CSpace]), Str ''HN'', WordB], - 5),
      (Cat [WordB, Alt [Str ''love'', Str ''loving''], Plus (In [CSpace]), Alt [Str ''this'',
       Str ''the''], Plus (In [CSpace]), Alt [Str ''tool'', Str ''app'', Str ''action''],
       WordB], - 10),
      (Cat [WordB, Str ''best'', Plus (In [CSpace]), Alt [Str ''tool'', Str ''app'',
       Str ''action''], Plus (In [CSpace]), Alt [Str (''I'' @ [CHR 0x27] @ ''ve''),
       Str (''i'' @ [CHR 0x27] @ ''ve''), Str ''ever''], WordB], - 10),
      (Cat [WordB, Str ''step'', In [CChar (CHR ''-''), CChar (CHR '' '')], Str ''by'',
       In [CChar (CHR ''-''), CChar (CHR '' '')], Str ''step'', Plus (In [CSpace]),
       Alt [Str ''guide'', Str ''tutorial''], WordB], - 10),
      (Cat [WordB, Str ''beginner'', Opt (Str [CHR 0x27]), Opt (Str ''s''), Plus (In [CSpace]),
       Str ''guide'', WordB], - 10)]"

section \<open>The scorer (\<open>filters/scorer.py\<close>)\<close>

subsection \<open>Python operations on metadata values\<close>

text \<open>
  \<open>str.lower()\<close> on the code points below 256.
\<close>

definition lower_char :: "char \<Rightarrow> char" where
  "lower_char c =
     (let n = (of_char c :: nat) in
      if 65 \<le> n \<and> n \<le> 90 \<or> 192 \<le> n \<and> n \<le> 214 \<or> 216 \<le> n \<and> n \<le> 222
      then char_of (n + 32) else c)"

definition lower :: "string \<Rightarrow> string" where
  "lower s = map lower_char s"

text \<open>
  The numeric reading of a value (\<open>None\<close> for a value that is no number), the exact
  comparison of numbers, and the two-argument \<open>min\<close> and \<open>max\<close>, which return their
  first argument unless the second is strictly better.
\<close>

fun num_of :: "json \<Rightarrow> pynum option" where
  "num_of (JInt n) = Some (NInt n)"
| "num_of (JBool b) = Some (NInt (if b then 1 else 0))"
| "num_of (JFloat f) = Some (NFloat f)"
| "num_of v = None"

fun float_of :: "pynum \<Rightarrow> pyfloat" where
  "float_of (NInt n) = Finite (of_int n)"
| "float_of (NFloat f) = f"

fun float_lt :: "pyfloat \<Rightarrow> pyfloat \<Rightarrow> bool" where
  "float_lt (Finite a) (Finite b) = (a < b)"
| "float_lt (Finite a) PosInf = True"
| "float_lt NegInf (Finite b) = True"
| "float_lt NegInf PosInf = True"
| "float_lt a b = False"

definition num_lt :: "pynum \<Rightarrow> pynum \<Rightarrow> bool" where
  "num_lt a b = float_lt (float_of a) (float_of b)"

definition num_ge :: "pynum \<Rightarrow> pynum \<Rightarrow> bool" where
  "num_ge a b = (float_of a \<noteq> NaN \<and> float_of b \<noteq> NaN \<and> \<not> num_lt a b)"

definition py_min :: "pynum \<Rightarrow> pynum \<Rightarrow> pynum" where
  "py_min a b = (if num_lt b a then b else a)"

definition py_max :: "pynum \<Rightarrow> pynum \<Rightarrow> pynum" where
  "py_max a b = (if num_lt a b then b else a)"

text \<open>
  Arithmetic on two \<open>int\<close>s is exact. The floor division of a float and the sum with a
  float operand are those of the machine; they are parameters, and a sum may raise
  (\<open>OverflowError\<close> for an \<open>int\<close> too large to convert).
\<close>

record float_ops =
  fo_floordiv :: "pyfloat \<Rightarrow> int \<Rightarrow> pyfloat"
  fo_add :: "pynum \<Rightarrow> pynum \<Rightarrow> pyerr + pyfloat"

definition py_floordiv :: "float_ops \<Rightarrow> json \<Rightarrow> int \<Rightarrow> pyerr + pynum" where
  "py_floordiv fo v n =
     (case num_of v of
        None \<Rightarrow> Inl TypeError
      | Some (NInt x) \<Rightarrow> Inr (NInt (x div n))
      | Some (NFloat f) \<Rightarrow> Inr (NFloat (fo_floordiv fo f n)))"

definition num_add :: "float_ops \<Rightarrow> pynum \<Rightarrow> pynum \<Rightarrow> pyerr + pynum" where
  "num_add fo a b =
     (case (a, b) of
        (NInt x, NInt y) \<Rightarrow> Inr (NInt (x + y))
      | _ \<Rightarrow> (case fo_add fo a b of Inl e \<Rightarrow> Inl e | Inr f \<Rightarrow> Inr (NFloat f)))"

text \<open>\<open>v >= n\<close> for a metadata value and a number: a value that is no number raises.\<close>

definition py_ge :: "json \<Rightarrow> pynum \<Rightarrow> pyerr + bool" where
  "py_ge v n = (case num_of v of None \<Rightarrow> Inl TypeError | Some x \<Rightarrow> Inr (num_ge x n))"

text \<open>The truth value of a metadata value.\<close>

fun truthy :: "json \<Rightarrow> bool" where
  "truthy JNull = False"
| "truthy (JBool b) = b"
| "truthy (JInt n) = (n \<noteq> 0)"
| "truthy (JFloat f) = (f \<noteq> Finite 0)"
| "truthy (JStr s) = (s \<noteq> [])"
| "truthy (JList xs) = (xs \<noteq> [])"
| "truthy (JDict d) = (d \<noteq> [])"

text \<open>
  Sequencing of steps that may raise.
\<close>

definition and_then :: "pyerr + 'a \<Rightarrow> ('a \<Rightarrow> pyerr + 'b) \<Rightarrow> pyerr + 'b" where
  "and_then x f = (case x of Inl e \<Rightarrow> Inl e | Inr v \<Rightarrow> f v)"

text \<open>
  \<open>any(l.lower() in names for l in labels)\<close>: \<open>iter(labels)\<close> raises on a value that is not
  iterable; a string yields its characters, a dict its keys; \<open>l.lower()\<close> raises on an
  element that is no string, unless an earlier element has already decided the \<open>any\<close>.
\<close>

fun py_iter :: "json \<Rightarrow> pyerr + json list" where
  "py_iter (JList xs) = Inr xs"
| "py_iter (JStr s) = Inr (map (\<lambda>c. JStr [c]) s)"
| "py_iter (JDict d) = Inr (map (\<lambda>kv. JStr (fst kv)) d)"
| "py_iter v = Inl TypeError"

fun any_lower_in :: "string list \<Rightarrow> json list \<Rightarrow> pyerr + bool" where
  "any_lower_in names [] = Inr False"
| "any_lower_in names (JStr s # ls) =
     (if lower s \<in> set names then Inr True else any_lower_in names ls)"
| "any_lower_in names (v # ls) = Inl AttributeError"

definition any_label :: "string list \<Rightarrow> json \<Rightarrow> pyerr + bool" where
  "any_label names labels = and_then (py_iter labels) (any_lower_in names)"

subsection \<open>The three components and \<open>score_item\<close>\<close>

definition pattern_sum :: "(rx \<times> int) list \<Rightarrow> string \<Rightarrow> int" where
  "pattern_sum table text = sum_list (map snd (filter (\<lambda>pd. re_search (fst pd) text) table))"

definition pattern_score :: "string \<Rightarrow> int" where
  "pattern_score text =
     (let text_lower = lower text in
      pattern_sum HIGH_SIGNAL_PATTERNS text_lower
      + pattern_sum ENTERPRISE_SIGNAL_PATTERNS text_lower
      + pattern_sum LOW_SIGNAL_PATTERNS text_lower)"

definition high_signal_labels :: "string list" where
  "high_signal_labels = [''bug'', ''breaking'', ''regression'', ''security'', ''critical'']"

definition opportunity_labels :: "string list" where
  "opportunity_labels =
     [''enhancement'', ''feature-request'', ''feature'', ''feature request'',
      ''help-wanted'', ''help wanted'', ''proposal'', ''rfc'']"

definition high_signal_categories :: "string list" where
  "high_signal_categories =
     [''ideas'', ''feature request'', ''feature requests'', ''feedback'', ''feature'',
      ''enhancements'']"

text \<open>\<open>score += min(value // divisor, cap)\<close>.\<close>

definition add_capped :: "float_ops \<Rightarrow> pynum \<Rightarrow> json \<Rightarrow> int \<Rightarrow> int \<Rightarrow> pyerr + pynum" where
  "add_capped fo score v divisor cap =
     and_then (py_floordiv fo v divisor) (\<lambda>q. num_add fo score (py_min q (NInt cap)))"

text \<open>\<open>if any(l.lower() in names for l in labels): score += bonus\<close>.\<close>

definition add_if_label :: "float_ops \<Rightarrow> pynum \<Rightarrow> string list \<Rightarrow> json \<Rightarrow> int \<Rightarrow> pyerr + pynum" where
  "add_if_label fo score names labels bonus =
     and_then (any_label names labels)
       (\<lambda>b. if b then num_add fo score (NInt bonus) else Inr score)"

definition engagement_score :: "float_ops \<Rightarrow> item \<Rightarrow> pyerr + pynum" where
  "engagement_score fo it =
     (let meta = item_metadata it in
      case item_source it of
        GITHUB_ISSUE \<Rightarrow>
          and_then (add_capped fo (NInt 0) (dict_get meta ''reactions'' (JInt 0)) 5 15) (\<lambda>s1.
          and_then (add_capped fo s1 (dict_get meta ''comments'' (JInt 0)) 3 10) (\<lambda>s2.
          and_then (add_if_label fo s2 high_signal_labels (dict_get meta ''labels'' (JList [])) 15) (\<lambda>s3.
          add_if_label fo s3 opportunity_labels (dict_get meta ''labels'' (JList [])) 10)))
      | GITHUB_RELEASE \<Rightarrow>
          (if truthy (dict_get meta ''prerelease'' JNull) then Inr (NInt (- 5)) else Inr (NInt 0))
      | GITHUB_DISCUSSION \<Rightarrow>
          and_then (add_capped fo (NInt 0) (dict_get meta ''upvotes'' (JInt 0)) 3 20) (\<lambda>s1.
          and_then (add_capped fo s1 (dict_get meta ''comments'' (JInt 0)) 5 10) (\<lambda>s2.
          and_then
            (if \<not> truthy (dict_get meta ''has_answer'' (JBool True))
             then and_then (py_ge (dict_get meta ''upvotes'' (JInt 0)) (NInt 10))
                    (\<lambda>b. if b then num_add fo s2 (NInt 15) else Inr s2)
             else Inr s2) (\<lambda>s3.
          and_then
            (case dict_get meta ''category'' (JStr []) of
               JStr c \<Rightarrow>
                 if lower c \<in> set high_signal_categories then num_add fo s3 (NInt 10) else Inr s3
             | _ \<Rightarrow> Inl AttributeError) (\<lambda>s4.
          add_if_label fo s4 opportunity_labels (dict_get meta ''labels'' (JList [])) 10))))
      | HACKER_NEWS \<Rightarrow>
          and_then (add_capped fo (NInt 0) (dict_get meta ''score'' (JInt 0)) 50 15) (\<lambda>s1.
          and_then (add_capped fo s1 (dict_get meta ''comments'' (JInt 0)) 30 10) (\<lambda>s2.
          if truthy (dict_get meta ''search_keyword'' JNull) then num_add fo s2 (NInt 5) else Inr s2))
      | NVD_CVE \<Rightarrow>
          and_then (py_ge (dict_get meta ''cvss_score'' (JInt 0)) (NFloat (Finite 9))) (\<lambda>critical.
          if critical then Inr (NInt 20)
          else and_then (py_ge (dict_get meta ''cvss_score'' (JInt 0)) (NFloat (Finite 7))) (\<lambda>high.
          if high then Inr (NInt 15)
          else and_then (py_ge (dict_get meta ''cvss_score'' (JInt 0)) (NFloat (Finite 4))) (\<lambda>medium.
          if medium then Inr (NInt 5) else Inr (NInt 0))))
      | RSS \<Rightarrow> Inr (NInt 0))"

definition body_quality_score :: "item \<Rightarrow> int" where
  "body_quality_score it =
     (let body_len = length (strip (item_body it)) in
      if body_len < 50 then - 10
      else if body_len < 200 then 0
      else if body_len < 1000 then 5
      else 10)"

text \<open>
  \<open>score_item\<close>. The item is returned with \<open>score\<close> set; an exception of the engagement
  component leaves the function before the assignment.
\<close>

definition score_item :: "float_ops \<Rightarrow> item \<Rightarrow> pyerr + item" where
  "score_item fo it =
     (let base = 20;
          text = item_title it @ [CHR 10] @ item_body it;
          pattern = pattern_score text
      in and_then (engagement_score fo it) (\<lambda>engagement.
         and_then (num_add fo (NInt (base + pattern)) engagement) (\<lambda>partial.
         and_then (num_add fo partial (NInt (body_quality_score it))) (\<lambda>total.
         Inr (it\<lparr>item_score := py_max (NInt 0) (py_min (NInt 100) total)\<rparr>)))))"

text \<open>
  \<open>filter_items\<close>: the comprehension scores the items in order and stops at the first
  exception; \<open>sort(key=..., reverse=True)\<close> is stable. Scores are finite once clamped;
  \<open>score_value\<close> is the value they are sorted by.
\<close>

fun score_value :: "pynum \<Rightarrow> rat" where
  "score_value (NInt n) = of_int n"
| "score_value (NFloat (Finite r)) = r"
| "score_value (NFloat f) = 0"

definition filter_items :: "float_ops \<Rightarrow> item list \<Rightarrow> int \<Rightarrow> pyerr + item list" where
  "filter_items fo items threshold =
     and_then (traverse (score_item fo) items) (\<lambda>scored.
       Inr (sort_key (\<lambda>x. - score_value (item_score x))
              (filter (\<lambda>x. num_ge (item_score x) (NInt threshold)) scored)))"

subsection \<open>Metadata of the expected types\<close>

text \<open>
  What the collectors record: counts that are integers, a CVSS score that is a number,
  labels that are a list of strings, a category that is a string; each may be absent.
\<close>

definition int_or_absent :: "(string \<times> json) list \<Rightarrow> string \<Rightarrow> bool" where
  "int_or_absent meta k =
     (case map_of meta k of None \<Rightarrow> True | Some (JInt n) \<Rightarrow> True | Some (JBool b) \<Rightarrow> True
      | Some v \<Rightarrow> False)"

definition num_or_absent :: "(string \<times> json) list \<Rightarrow> string \<Rightarrow> bool" where
  "num_or_absent meta k = (case map_of meta k of None \<Rightarrow> True | Some v \<Rightarrow> num_of v \<noteq> None)"

fun is_str :: "json \<Rightarrow> bool" where
  "is_str (JStr s) = True"
| "is_str v = False"

definition strs_or_absent :: "(string \<times> json) list \<Rightarrow> string \<Rightarrow> bool" where
  "strs_or_absent meta k =
     (case map_of meta k of None \<Rightarrow> True | Some (JList xs) \<Rightarrow> list_all is_str xs
      | Some v \<Rightarrow> False)"

definition str_or_absent :: "(string \<times> json) list \<Rightarrow> string \<Rightarrow> bool" where
  "str_or_absent meta k = (case map_of meta k of None \<Rightarrow> True | Some v \<Rightarrow> is_str v)"

definition well_typed_metadata :: "(string \<times> json) list \<Rightarrow> bool" where
  "well_typed_metadata meta =
     (int_or_absent meta ''reactions'' \<and> int_or_absent meta ''comments'' \<and>
      int_or_absent meta ''upvotes'' \<and> int_or_absent meta ''score'' \<and>
      num_or_absent meta ''cvss_score'' \<and> strs_or_absent meta ''labels'' \<and>
      str_or_absent meta ''category'')"

section \<open>Fixtures of the test suite (\<open>tests/test_opportunities.py\<close>)\<close>

text \<open>
  \<open>_make_valid_opportunity_dict(**overrides)\<close>: \<open>base.update(overrides)\<close> is the association
  list with the overrides in front.
\<close>

definition make_valid_opportunity_dict :: "(string \<times> json) list \<Rightarrow> (string \<times> json) list" where
  "make_valid_opportunity_dict overrides = overrides @
     [(''id'', JStr ''terraform-drift-detector''),
      (''title'', JStr ''Terraform Drift Detector''),
      (''pain'', JStr ''Teams lose track of infrastructure drift between planned and actual state.''),
      (''target_buyer'', JStr ''DevOps lead''),
      (''solution_shape'', JStr ''CLI + SaaS dashboard that continuously monitors Terraform state.''),
      (''market_type'', JStr ''boring/growing''),
      (''effort_estimate'', JStr ''1-2 weeks''),
      (''monetization'', JStr ''Per-repo, $50-200/month per team.''),
      (''moat'', JStr ''Deep integration with Terraform state files and cloud provider APIs.''),
      (''confidence'', JInt 75),
      (''evidence'', JList [JDict
         [(''source'', JStr ''github_issue''),
          (''item_title'', JStr ''Terraform drift detection is broken''),
          (''url'', JStr ''https://github.com/hashicorp/terraform/issues/12345''),
          (''score'', JInt 65)]]),
      (''competition_notes'', JStr ''Spacelift and env0 exist but are expensive and complex.'')]"

text \<open>
  The evidence entry of the fixture with another \<open>score\<close>, for use as an override.
\<close>

definition evidence_with_score :: "json \<Rightarrow> string \<times> json" where
  "evidence_with_score sc =
     (''evidence'', JList [JDict
         [(''source'', JStr ''github_issue''),
          (''item_title'', JStr ''Terraform drift detection is broken''),
          (''url'', JStr ''https://github.com/hashicorp/terraform/issues/12345''),
          (''score'', sc)]])"

text \<open>
  The opportunity \<open>terraform-drift-detector\<close> of \<open>populated_storage\<close> (confidence 82) and
  its second version of \<open>test_multiple_runs_create_trends\<close> (confidence 90).
\<close>

definition terraform_v1 :: opportunity where
  "terraform_v1 =
     \<lparr>opp_id = ''terraform-drift-detector'', opp_title = ''Terraform Drift Detector'',
      opp_pain = ''Infrastructure drift is a pain.'', opp_target_buyer = ''DevOps lead'',
      opp_solution_shape = ''CLI + dashboard for drift monitoring.'',
      opp_market_type = ''boring/growing'', opp_effort_estimate = ''1-2 weeks'',
      opp_monetization = ''Per-repo $100/mo.'', opp_moat = ''Deep Terraform integration.'',
      opp_confidence = 82,
      opp_evidence =
        [\<lparr>ev_source = ''github_issue'', ev_item_title = ''Drift detection broken'',
          ev_url = ''https://github.com/hashicorp/terraform/issues/123'', ev_score = 70\<rparr>],
      opp_competition_notes = JStr ''Spacelift exists but is expensive.'',
      opp_run_id = None\<rparr>"

definition terraform_v2 :: opportunity where
  "terraform_v2 =
     \<lparr>opp_id = ''terraform-drift-detector'', opp_title = ''Terraform Drift Detector v2'',
      opp_pain = ''Still a pain.'', opp_target_buyer = ''DevOps lead'',
      opp_solution_shape = ''Updated solution.'',
      opp_market_type = ''boring/growing'', opp_effort_estimate = ''1-2 weeks'',
      opp_monetization = ''$200/mo'', opp_moat = ''Deeper integration.'',
      opp_confidence = 90,
      opp_evidence =
        [\<lparr>ev_source = ''github_issue'', ev_item_title = ''New drift issue'',
          ev_url = ''https://github.com/hashicorp/terraform/issues/456'', ev_score = 75\<rparr>],
      opp_competition_notes = JStr [],
      opp_run_id = None\<rparr>"

text \<open>An item as \<open>populated_storage\<close> inserts them.\<close>

definition test_item :: item where
  "test_item =
     \<lparr>item_source = GITHUB_ISSUE, item_source_id = ''test-0'', item_url = ''https://example.com/0'',
      item_title = ''Test item 0'', item_body = ''Body of test item 0'', item_metadata = [],
      item_score = NInt 50\<rparr>"

text \<open>
  Test doubles for the collaborators: a provider that answers its \<open>n\<close>-th request with the
  \<open>n\<close>-th entry of a script (\<open>None\<close> raises \<open>LLMError\<close>, as does a request beyond the script),
  and a decoder that knows the empty array only.
\<close>

definition scripted_llm :: "string option list \<Rightarrow> llm" where
  "scripted_llm script reqs req =
     (if length reqs < length script
      then map_option (\<lambda>t. \<lparr>resp_text = t, resp_input_tokens = 0, resp_output_tokens = 0,
                              resp_model = ''scripted''\<rparr>) (script ! length reqs)
      else None)"

definition loads_empty_array_only :: "string \<Rightarrow> json option" where
  "loads_empty_array_only s = (if s = ''[]'' then Some (JList []) else None)"

definition test_collaborators :: "string option list \<Rightarrow> collaborators" where
  "test_collaborators script =
     \<lparr>co_llm = scripted_llm script, co_loads = loads_empty_array_only,
      co_system = ''system'', co_user_prompt = (\<lambda>items. ''signals''),
      co_str_error = (\<lambda>e. ''error''), co_summary = (\<lambda>opps. ''summary'')\<rparr>"

text \<open>
  Float arithmetic for running examples: exact on finite values. Theorems are stated for
  every \<open>float_ops\<close>; this instance serves where a concrete one is needed.
\<close>

definition exact_float_ops :: float_ops where
  "exact_float_ops =
     \<lparr>fo_floordiv = (\<lambda>f n. case f of Finite r \<Rightarrow> Finite (of_int \<lfloor>r / of_int n\<rfloor>) | _ \<Rightarrow> NaN),
      fo_add = (\<lambda>a b. case (float_of a, float_of b) of
                         (Finite x, Finite y) \<Rightarrow> Inr (Finite (x + y))
                       | _ \<Rightarrow> Inr NaN)\<rparr>"

text \<open>The item of end-to-end scenario A.\<close>

definition soc2_item :: item where
  "soc2_item =
     \<lparr>item_source = GITHUB_DISCUSSION, item_source_id = ''org/repo:discussion:1'',
      item_url = ''https://github.com/org/repo/discussions/1'',
      item_title = ''SOC 2 compliance audit automation'', item_body = [],
      item_metadata = [(''upvotes'', JInt 80), (''has_answer'', JBool False)],
      item_score = NInt 0\<rparr>"

text \<open>An item with no text, of a given source and with given metadata.\<close>

definition blank_item :: "Source \<Rightarrow> (string \<times> json) list \<Rightarrow> item" where
  "blank_item src meta =
     \<lparr>item_source = src, item_source_id = ''1'', item_url = [], item_title = [], item_body = [],
      item_metadata = meta, item_score = NInt 0\<rparr>"

section \<open>Properties of the array extraction\<close>

lemma bracket_depth_Cons:
  "bracket_depth (c # cs) =
     (if c = CHR ''['' then 1 else if c = CHR '']'' then - 1 else 0) + bracket_depth cs"
  by (simp add: bracket_depth_def)

lemma bracket_depth_Nil: "bracket_depth [] = 0"
  by (simp add: bracket_depth_def)

lemma scan_inner:
  "0 < d \<Longrightarrow> d + bracket_depth xs = 0 \<Longrightarrow>
   (\<forall>n. 0 < n \<and> n < length xs \<longrightarrow> 0 < d + bracket_depth (take n xs)) \<Longrightarrow>
   scan_brackets (xs @ s) i d = Some (i + length xs)"
proof (induction xs arbitrary: i d)
  case Nil
  then show ?case by (simp add: bracket_depth_Nil)
next
  case (Cons c cs)
  have step: "\<And>n. 0 < n \<Longrightarrow> n < length cs \<Longrightarrow> 0 < d + bracket_depth [c] + bracket_depth (take n cs)"
  proof -
    fix n assume "0 < n" "n < length cs"
    then have "0 < d + bracket_depth (take (Suc n) (c # cs))"
      using Cons.prems(3) by (metis Suc_less_eq length_Cons zero_less_Suc)
    then show "0 < d + bracket_depth [c] + bracket_depth (take n cs)"
      by (simp add: bracket_depth_Cons bracket_depth_Nil)
  qed
  have tot: "d + bracket_depth [c] + bracket_depth cs = 0"
    using Cons.prems(2) by (simp add: bracket_depth_Cons bracket_depth_Nil)
  have one: "cs \<noteq> [] \<Longrightarrow> 0 < d + bracket_depth [c]"
    using Cons.prems(3) [rule_format, of 1] by (cases cs) (simp_all add: bracket_depth_Cons bracket_depth_Nil)
  show ?case
  proof (cases "cs = []")
    case True
    then show ?thesis using Cons.prems(1) tot
      by (auto simp: bracket_depth_Cons bracket_depth_Nil split: if_splits)
  next
    case False
    have "scan_brackets (cs @ s) (i + 1) (d + bracket_depth [c]) = Some (i + 1 + length cs)"
      using Cons.IH [of "d + bracket_depth [c]" "i + 1"] one [OF False] tot step by simp
    then show ?thesis using one [OF False]
      by (auto simp: bracket_depth_Cons bracket_depth_Nil split: if_splits)
  qed
qed


lemma set_sub_code_fences: "set (sub_code_fences s) \<subseteq> set s"
proof (induction s rule: sub_code_fences.induct)
  case 1
  show ?case by simp
next
  case (2 c cs)
  show ?case
  proof (cases "take 3 (c # cs) = fence")
    case True
    have "set (dropWhile py_isspace (skip_json (drop 3 (c # cs)))) \<subseteq> set (c # cs)"
      using set_dropWhileD set_drop_subset [of 3 "c # cs"] set_drop_subset [of 4 "drop 3 (c # cs)"]
      by (fastforce simp: skip_json_def split: if_splits)
    with 2 True show ?thesis by auto
  next
    case False
    with 2 show ?thesis by auto
  qed
qed

lemma take3_fence_append:
  "(take 3 (p @ CHR ''['' # x) = fence) = (take 3 p = fence)"
  by (cases p; cases "tl p"; cases "tl (tl p)") (auto simp: fence_def)

lemma skip_json_append:
  "skip_json (r @ CHR ''['' # x) = skip_json r @ CHR ''['' # x"
proof -
  have "(take 4 (r @ CHR ''['' # x) = ''json'') = (take 4 r = ''json'')"
    by (cases r; cases "tl r"; cases "tl (tl r)"; cases "tl (tl (tl r))") auto
  moreover have "take 4 r = ''json'' \<Longrightarrow> 4 \<le> length r"
    by (cases r; cases "tl r"; cases "tl (tl r)"; cases "tl (tl (tl r))") auto
  ultimately show ?thesis by (auto simp: skip_json_def)
qed

lemma dropWhile_nonspace_append:
  "\<not> py_isspace b \<Longrightarrow> dropWhile py_isspace (q @ b # x) = dropWhile py_isspace q @ b # x"
proof (cases "\<forall>c \<in> set q. py_isspace c")
  case True
  assume "\<not> py_isspace b"
  with True show ?thesis by (simp add: dropWhile_append2)
next
  case False
  then show ?thesis by (auto simp: dropWhile_append1)
qed

lemma dropWhile_space_append:
  "dropWhile py_isspace (q @ CHR ''['' # x) = dropWhile py_isspace q @ CHR ''['' # x"
proof (cases "\<forall>c \<in> set q. py_isspace c")
  case True
  then show ?thesis by (simp add: dropWhile_append2 py_isspace_def)
next
  case False
  then show ?thesis by (auto simp: dropWhile_append1)
qed

lemma sub_code_fences_bracket:
  "sub_code_fences (CHR ''['' # x) = CHR ''['' # sub_code_fences x"
  by (simp add: fence_def)

lemma sub_code_fences_prefix:
  "sub_code_fences (p @ CHR ''['' # x) = sub_code_fences p @ CHR ''['' # sub_code_fences x"
proof (induction "length p" arbitrary: p rule: less_induct)
  case less
  show ?case
  proof (cases p)
    case Nil
    then show ?thesis by (simp add: fence_def)
  next
    case (Cons c cs)
    show ?thesis
    proof (cases "take 3 p = fence")
      case True
      then have len: "3 \<le> length p"
        by (cases p; cases "tl p"; cases "tl (tl p)") (auto simp: fence_def)
      let ?q = "dropWhile py_isspace (skip_json (drop 3 p))"
      have "length ?q \<le> length (skip_json (drop 3 p))"
        by (rule length_dropWhile_le)
      also have "\<dots> \<le> length (drop 3 p)"
        by (auto simp: skip_json_def)
      finally have "length ?q < length p" using len by simp
      then have ih: "sub_code_fences (?q @ CHR ''['' # x) = sub_code_fences ?q @ CHR ''['' # sub_code_fences x"
        by (rule less)
      have "sub_code_fences (p @ CHR ''['' # x) =
              sub_code_fences (dropWhile py_isspace (skip_json (drop 3 (p @ CHR ''['' # x))))"
        using True Cons take3_fence_append [of p x] by simp
      also have "drop 3 (p @ CHR ''['' # x) = drop 3 p @ CHR ''['' # x"
        using len by simp
      also have "dropWhile py_isspace (skip_json (drop 3 p @ CHR ''['' # x)) = ?q @ CHR ''['' # x"
        by (simp add: skip_json_append dropWhile_space_append)
      finally have "sub_code_fences (p @ CHR ''['' # x) = sub_code_fences ?q @ CHR ''['' # sub_code_fences x"
        using ih by simp
      moreover have "sub_code_fences p = sub_code_fences ?q"
        using True Cons by simp
      ultimately show ?thesis by simp
    next
      case False
      then have nf: "take 3 (p @ CHR ''['' # x) \<noteq> fence"
        using take3_fence_append [of p x] by blast
      have "length cs < length p" using Cons by simp
      then have "sub_code_fences (cs @ CHR ''['' # x) = sub_code_fences cs @ CHR ''['' # sub_code_fences x"
        by (rule less)
      then show ?thesis using False nf Cons by simp
    qed
  qed
qed

lemma sub_code_fences_no_fence:
  "\<not> has_fence a \<Longrightarrow> a \<noteq> [] \<Longrightarrow> last a = CHR '']'' \<Longrightarrow>
   sub_code_fences (a @ s) = a @ sub_code_fences s"
proof (induction a)
  case Nil
  then show ?case by simp
next
  case (Cons c a)
  show ?case
  proof (cases "a = []")
    case True
    with Cons.prems show ?thesis by (simp add: fence_def)
  next
    case False
    have "take 3 (c # a @ s) \<noteq> fence"
      using Cons.prems False
      by (cases a; cases "tl a") (auto simp: fence_def)
    moreover have "sub_code_fences (a @ s) = a @ sub_code_fences s"
      using Cons False by simp
    ultimately show ?thesis by simp
  qed
qed


lemma bracket_depth_snoc:
  "bracket_depth (xs @ [c]) =
     bracket_depth xs + (if c = CHR ''['' then 1 else if c = CHR '']'' then - 1 else 0)"
  by (induction xs) (simp_all add: bracket_depth_Cons bracket_depth_Nil)

lemma closes_at_end_Cons:
  assumes "closes_at_end a"
  obtains a' where "a = CHR ''['' # a'"
  using assms by (cases a) (auto simp: closes_at_end_def)

lemma closes_at_end_last:
  assumes "closes_at_end a"
  shows "last a = CHR '']''"
proof -
  from assms have ne: "a \<noteq> []" and hd: "hd a = CHR ''[''" and tot: "bracket_depth a = 0"
    and pos: "\<And>n. 1 \<le> n \<Longrightarrow> n < length a \<Longrightarrow> 0 < bracket_depth (take n a)"
    by (auto simp: closes_at_end_def)
  have split: "a = butlast a @ [last a]" using ne by simp
  show ?thesis
  proof (cases "butlast a = []")
    case True
    with split hd have "a = [CHR ''['']" by (metis append_Nil list.sel(1))
    with tot show ?thesis by (simp add: bracket_depth_Cons bracket_depth_Nil)
  next
    case False
    then have "1 \<le> length (butlast a)" by (cases "butlast a") simp_all
    moreover have "length (butlast a) < length a" using ne by simp
    ultimately have "0 < bracket_depth (take (length (butlast a)) a)" by (rule pos)
    moreover have "take (length (butlast a)) a = butlast a"
      by (metis butlast_conv_take length_butlast)
    moreover have "bracket_depth a =
        bracket_depth (butlast a) + (if last a = CHR ''['' then 1 else if last a = CHR '']'' then - 1 else 0)"
      using bracket_depth_snoc [of "butlast a" "last a"] split by simp
    ultimately show ?thesis using tot by (auto split: if_splits)
  qed
qed

lemma scan_brackets_closes:
  assumes "closes_at_end a"
  shows "scan_brackets (a @ s) i 0 = Some (i + length a)"
proof -
  from assms obtain a' where a: "a = CHR ''['' # a'" by (rule closes_at_end_Cons)
  from assms a have tot: "1 + bracket_depth a' = 0"
    by (simp add: closes_at_end_def bracket_depth_Cons)
  have pos: "\<forall>n. 0 < n \<and> n < length a' \<longrightarrow> 0 < 1 + bracket_depth (take n a')"
  proof (intro allI impI)
    fix n assume n: "0 < n \<and> n < length a'"
    then have "Suc n \<in> {1..<length a}" using a by simp
    with assms have "0 < bracket_depth (take (Suc n) a)"
      unfolding closes_at_end_def by blast
    then show "0 < 1 + bracket_depth (take n a')"
      using a by (simp add: bracket_depth_Cons)
  qed
  have "scan_brackets (a' @ s) (i + 1) 1 = Some (i + 1 + length a')"
    using scan_inner [of 1 a' s "i + 1"] tot pos by simp
  then show ?thesis using a by simp
qed

lemma strip_around:
  assumes "a \<noteq> []" "\<not> py_isspace (hd a)" "\<not> py_isspace (last a)"
  shows "strip (p @ a @ s) = dropWhile py_isspace p @ a @ rev (dropWhile py_isspace (rev s))"
proof -
  from assms obtain b a' where a: "a = b # a'" and b: "\<not> py_isspace b"
    by (cases a) auto
  from assms obtain m e where m: "a = m @ [e]" and e: "\<not> py_isspace e"
    by (metis append_butlast_last_id)
  have "dropWhile py_isspace (p @ a @ s) = dropWhile py_isspace p @ a @ s"
    using a b by (simp add: dropWhile_nonspace_append)
  then have "strip (p @ a @ s) =
      rev (dropWhile py_isspace (rev s @ e # (rev m @ rev (dropWhile py_isspace p))))"
    unfolding strip_def m by simp
  also have "\<dots> = rev (dropWhile py_isspace (rev s) @ e # (rev m @ rev (dropWhile py_isspace p)))"
    using e by (simp add: dropWhile_nonspace_append)
  also have "\<dots> = dropWhile py_isspace p @ a @ rev (dropWhile py_isspace (rev s))"
    unfolding m by simp
  finally show ?thesis .
qed

lemma find_bracket_at:
  assumes "CHR ''['' \<notin> set p"
  shows "find_bracket (p @ CHR ''['' # x) = Some (length p)"
proof -
  have "takeWhile (\<lambda>c. c \<noteq> CHR ''['') (p @ CHR ''['' # x) = p"
    using assms by (subst takeWhile_append2) auto
  then show ?thesis by (simp add: find_bracket_def)
qed

lemma extract_surrounded:
  assumes pre: "CHR ''['' \<notin> set pre" and cl: "closes_at_end a" and nf: "\<not> has_fence a"
  shows "extract_json_array (pre @ a @ suf) = Inr a"
proof -
  from cl obtain a' where a: "a = CHR ''['' # a'" by (rule closes_at_end_Cons)
  have la: "last a = CHR '']''" using cl by (rule closes_at_end_last)
  have ne: "a \<noteq> []" using a by simp
  let ?p = "dropWhile py_isspace (sub_code_fences pre)"
  let ?s = "rev (dropWhile py_isspace (rev (sub_code_fences suf)))"
  have "sub_code_fences (pre @ a @ suf) = sub_code_fences pre @ CHR ''['' # sub_code_fences (a' @ suf)"
    using sub_code_fences_prefix [of pre "a' @ suf"] a by simp
  moreover have "CHR ''['' # sub_code_fences (a' @ suf) = a @ sub_code_fences suf"
    using sub_code_fences_no_fence [OF nf ne la, of suf] a by (simp add: fence_def)
  ultimately have sub: "sub_code_fences (pre @ a @ suf) = sub_code_fences pre @ a @ sub_code_fences suf"
    by simp
  have stripped: "strip (sub_code_fences (pre @ a @ suf)) = ?p @ a @ ?s"
    unfolding sub using ne a la by (intro strip_around) (simp_all add: py_isspace_def)
  have "set ?p \<subseteq> set pre"
    using set_sub_code_fences [of pre] set_dropWhileD by fastforce
  with pre have np: "CHR ''['' \<notin> set ?p" by blast
  have fb: "find_bracket (?p @ a @ ?s) = Some (length ?p)"
    using find_bracket_at [OF np, of "a' @ ?s"] a by simp
  have sc: "scan_brackets (a @ ?s) (length ?p) 0 = Some (length ?p + length a)"
    using cl by (rule scan_brackets_closes)
  show ?thesis
    unfolding extract_json_array_def stripped Let_def fb by (simp add: sc)
qed

lemma extract_no_bracket:
  assumes "CHR ''['' \<notin> set t"
  shows "extract_json_array t = Inl (ValueError NoJsonArray)"
proof -
  have "set (strip (sub_code_fences t)) \<subseteq> set t"
    unfolding strip_def using set_sub_code_fences [of t] set_dropWhileD
    by (metis (no_types, lifting) set_rev subset_iff)
  with assms have "CHR ''['' \<notin> set (strip (sub_code_fences t))" by blast
  then show ?thesis by (simp add: extract_json_array_def find_bracket_def)
qed

text \<open>
  Claim C2, as amended. Let \<open>a\<close> open with \<open>[\<close>, let its bracket count first return to zero
  at its last character, and let it contain no run of three backticks; let the text before
  it contain no \<open>[\<close>. Then extraction applied to prefix, \<open>a\<close> and any suffix returns
  exactly \<open>a\<close>; this covers \<open>a\<close> wrapped in code fences and \<open>a\<close> inside prose. Any input
  with no opening bracket fails with the "no array" error, and \<open>[{incomplete\<close> fails with
  the "unbalanced" error.
\<close>

theorem extract_json_array_roundtrip:
  \<open>(CHR ''['' \<notin> set pre \<and> closes_at_end a \<and> \<not> has_fence a \<longrightarrow>
      extract_json_array (pre @ a @ suf) = Inr a) \<and>
   (CHR ''['' \<notin> set t \<longrightarrow> extract_json_array t = Inl (ValueError NoJsonArray)) \<and>
   extract_json_array ''[{incomplete'' = Inl (ValueError UnbalancedBrackets)\<close>
proof (intro conjI impI)
  show "extract_json_array ''[{incomplete'' = Inl (ValueError UnbalancedBrackets)"
    by code_simp
qed (auto intro: extract_surrounded extract_no_bracket)

text \<open>
  The theorem at a fenced array with a nested array, and at a text without brackets.
\<close>

theorem extract_json_array_roundtrip_witness:
  \<open>CHR ''['' \<notin> set (fence @ ''json'' @ [CHR 10]) \<and>
   closes_at_end ''[{"a": [1, 2]}]'' \<and> \<not> has_fence ''[{"a": [1, 2]}]'' \<and>
   extract_json_array ((fence @ ''json'' @ [CHR 10]) @ ''[{"a": [1, 2]}]'' @ (CHR 10 # fence))
     = Inr ''[{"a": [1, 2]}]'' \<and>
   CHR ''['' \<notin> set ''no array here'' \<and>
   extract_json_array ''no array here'' = Inl (ValueError NoJsonArray)\<close>
proof -
  have 1: \<open>CHR ''['' \<notin> set (fence @ ''json'' @ [CHR 10])\<close> by (simp add: fence_def)
  have 2: \<open>closes_at_end ''[{"a": [1, 2]}]''\<close> by code_simp
  have 3: \<open>\<not> has_fence ''[{"a": [1, 2]}]''\<close> by (simp add: fence_def)
  have 4: \<open>CHR ''['' \<notin> set ''no array here''\<close> by simp
  show ?thesis
    using extract_json_array_roundtrip
      [of "fence @ ''json'' @ [CHR 10]" \<open>''[{"a": [1, 2]}]''\<close> "CHR 10 # fence" "''no array here''"]
      1 2 3 4 by blast
qed

text \<open>
  Claim C2 as stated fails. With the prose prefix \<open>Note [1]: \<close> before the array \<open>[2]\<close>
  the first bracket of the prose is taken, and for the fenced array \<open>["]"]\<close>, whose only
  element is the string \<open>]\<close>, the bracket inside the string literal closes the scan.
\<close>

theorem extract_json_array_roundtrip_counterexample:
  \<open>extract_json_array (''Note [1]: '' @ ''[2]'' @ '' done'') \<noteq> Inr ''[2]'' \<and>
   extract_json_array ((fence @ ''json'' @ [CHR 10]) @ ''["]"]'' @ (CHR 10 # fence)) \<noteq> Inr ''["]"]''\<close>
  by code_simp

section \<open>Properties of \<open>parse_opportunities_json\<close>\<close>

lemma in_set_enumerate:
  "x \<in> set xs \<Longrightarrow> \<exists>i. (i, x) \<in> set (enumerate n xs)"
  by (induction xs arbitrary: n) auto

lemma traverse_raises:
  "x \<in> set xs \<Longrightarrow> isl (f x) \<Longrightarrow> isl (traverse f xs)"
  by (induction xs) (auto split: sum.splits)

lemma convert_opportunity_raises:
  assumes "JDict ev \<in> set (evidence_list d)" "py_int (dict_get ev ''score'' (JInt 0)) = Inl e"
  shows "isl (convert_opportunity d)"
proof -
  have "isl (convert_evidence (JDict ev))"
    using assms(2) by (simp add: convert_evidence_def)
  with assms(1) have "isl (traverse convert_evidence (evidence_list d))"
    by (rule traverse_raises)
  then obtain e' where "traverse convert_evidence (evidence_list d) = Inl e'"
    by (auto simp: isl_def)
  then show ?thesis by (simp add: convert_opportunity_def)
qed

lemma parse_items_raises:
  assumes "validate_opportunity_dict d = Inr []" "isl (convert_opportunity d)"
  shows "(i, JDict d) \<in> set xs \<Longrightarrow> isl (parse_items xs opps errs)"
proof (induction xs arbitrary: opps errs)
  case Nil
  then show ?case by simp
next
  case (Cons p rest)
  obtain j item where p: "p = (j, item)" by (cases p)
  show ?case
  proof (cases "item = JDict d")
    case True
    from assms(2) obtain e' where "convert_opportunity d = Inl e'"
      by (auto simp: isl_def)
    with assms(1) True p show ?thesis by simp
  next
    case False
    with Cons.prems p have "(i, JDict d) \<in> set rest" by auto
    then have ih: "\<And>opps errs. isl (parse_items rest opps errs)"
      by (rule Cons.IH)
    show ?thesis unfolding p
      by (simp add: ih split: json.splits sum.splits)
  qed
qed

text \<open>
  Claim C10. Validation never looks at the \<open>score\<close> of an evidence entry; conversion
  applies \<open>int()\<close> to it. So when an array holds an element that passes validation and
  has an evidence entry whose \<open>score\<close> does not convert, the whole call raises, whatever
  the other elements are: no element is returned.
\<close>

theorem parse_raises_on_unconvertible_score:
  assumes "JDict d \<in> set data" and "validate_opportunity_dict d = Inr []"
    and "JDict ev \<in> set (evidence_list d)" and "py_int (dict_get ev ''score'' (JInt 0)) = Inl e"
  shows "\<exists>e'. parse_data (JList data) = Inl e'"
proof -
  from assms(3,4) have c: "isl (convert_opportunity d)"
    by (rule convert_opportunity_raises)
  from assms(1) obtain i where "(i, JDict d) \<in> set (enumerate 0 data)"
    using in_set_enumerate [of "JDict d" data 0] by blast
  with assms(2) c have "isl (parse_items (enumerate 0 data) [] [])"
    by (rule parse_items_raises)
  then obtain e' where "parse_items (enumerate 0 data) [] [] = Inl e'"
    by (auto simp: isl_def)
  then show ?thesis by (simp add: parse_data_def)
qed

text \<open>
  Such an input exists: the fixture of the test suite, which is valid and parses alone,
  followed by a copy whose evidence score is the string \<open>high\<close>. The exception raised is
  the \<open>ValueError\<close> of \<open>int("high")\<close>.
\<close>

theorem parse_raises_on_unconvertible_score_witness:
  "JDict (make_valid_opportunity_dict [(''id'', JStr ''second''), evidence_with_score (JStr ''high'')])
     \<in> set [JDict (make_valid_opportunity_dict []),
              JDict (make_valid_opportunity_dict [(''id'', JStr ''second''), evidence_with_score (JStr ''high'')])] \<and>
   validate_opportunity_dict
     (make_valid_opportunity_dict [(''id'', JStr ''second''), evidence_with_score (JStr ''high'')]) = Inr [] \<and>
   JDict [(''source'', JStr ''github_issue''),
          (''item_title'', JStr ''Terraform drift detection is broken''),
          (''url'', JStr ''https://github.com/hashicorp/terraform/issues/12345''),
          (''score'', JStr ''high'')]
     \<in> set (evidence_list
          (make_valid_opportunity_dict [(''id'', JStr ''second''), evidence_with_score (JStr ''high'')])) \<and>
   py_int (dict_get [(''source'', JStr ''github_issue''),
          (''item_title'', JStr ''Terraform drift detection is broken''),
          (''url'', JStr ''https://github.com/hashicorp/terraform/issues/12345''),
          (''score'', JStr ''high'')] ''score'' (JInt 0)) = Inl (ValueError InvalidIntLiteral) \<and>
   validate_opportunity_dict (make_valid_opportunity_dict []) = Inr [] \<and>
   map opp_id (fst (projr (parse_data (JList [JDict (make_valid_opportunity_dict [])]))))
     = [''terraform-drift-detector''] \<and>
   (\<exists>e'. parse_data (JList [JDict (make_valid_opportunity_dict []),
              JDict (make_valid_opportunity_dict [(''id'', JStr ''second''), evidence_with_score (JStr ''high'')])])
          = Inl e')"
proof -
  let ?bad = "make_valid_opportunity_dict [(''id'', JStr ''second''), evidence_with_score (JStr ''high'')]"
  let ?ev = "[(''source'', JStr ''github_issue''),
          (''item_title'', JStr ''Terraform drift detection is broken''),
          (''url'', JStr ''https://github.com/hashicorp/terraform/issues/12345''),
          (''score'', JStr ''high'')]"
  let ?data = "[JDict (make_valid_opportunity_dict []), JDict ?bad]"
  have 1: "JDict ?bad \<in> set ?data" by simp
  have 2: "validate_opportunity_dict ?bad = Inr []" by code_simp
  have 3: "JDict ?ev \<in> set (evidence_list ?bad)" by code_simp
  have 4: "py_int (dict_get ?ev ''score'' (JInt 0)) = Inl (ValueError InvalidIntLiteral)" by code_simp
  have 5: "validate_opportunity_dict (make_valid_opportunity_dict []) = Inr []" by code_simp
  have 6: "map opp_id (fst (projr (parse_data (JList [JDict (make_valid_opportunity_dict [])]))))
     = [''terraform-drift-detector'']" by code_simp
  show ?thesis
    using parse_raises_on_unconvertible_score [OF 1 2 3 4] 1 2 3 4 5 6 by blast
qed

text \<open>
  Claim C3 fails on the code by a missed case of the validation. In an array of two
  elements that both pass validation, the second with the evidence score \<open>high\<close>, the call
  raises the \<open>ValueError\<close> of \<open>int()\<close> instead of returning the valid elements; and with a
  second element whose \<open>effort_estimate\<close> is a list, the membership test in the validation
  raises \<open>TypeError\<close> instead of recording a reason for that element.
\<close>

theorem parse_partial_acceptance_fails:
  "validate_opportunity_dict (make_valid_opportunity_dict []) = Inr [] \<and>
   validate_opportunity_dict (make_valid_opportunity_dict [evidence_with_score (JStr ''high'')]) = Inr [] \<and>
   parse_data (JList [JDict (make_valid_opportunity_dict []),
                      JDict (make_valid_opportunity_dict [evidence_with_score (JStr ''high'')])])
     = Inl (ValueError InvalidIntLiteral) \<and>
   parse_data (JList [JDict (make_valid_opportunity_dict []),
                      JDict (make_valid_opportunity_dict [(''effort_estimate'', JList [])])])
     = Inl TypeError"
  by code_simp

section \<open>Properties of the opportunity store\<close>

lemma trends_step_known:
  assumes "trends_inv tr xs" "row_id r \<in> trend_id ` set tr"
  shows "trends_inv (trends_step tr r) (xs @ [r])"
proof -
  let ?u = "\<lambda>t. if trend_id t = row_id r
                 then t\<lparr>data_points := data_points t @ [point_of r], trend_title := row_title r\<rparr>
                 else t"
  have step: "trends_step tr r = map ?u tr"
    using assms(2) by (simp add: trends_step_def)
  have ids: "map trend_id (map ?u tr) = map trend_id tr"
    by (induction tr) auto
  have d: "distinct (map trend_id (map ?u tr))"
    using assms(1) unfolding ids by (simp add: trends_inv_def)
  have s: "trend_id ` set (map ?u tr) = row_id ` set (xs @ [r])"
  proof -
    have "trend_id ` set (map ?u tr) = set (map trend_id (map ?u tr))" by (simp only: set_map)
    also have "\<dots> = trend_id ` set tr" unfolding ids by simp
    also have "\<dots> = row_id ` set (xs @ [r])"
      using assms by (auto simp: trends_inv_def)
    finally show ?thesis .
  qed
  have p: "\<forall>t \<in> set (map ?u tr).
          data_points t = map point_of (filter (\<lambda>x. row_id x = trend_id t) (xs @ [r])) \<and>
          trend_title t = row_title (last (filter (\<lambda>x. row_id x = trend_id t) (xs @ [r])))"
    using assms(1) by (auto simp: trends_inv_def)
  show ?thesis unfolding step trends_inv_def using d s p by blast
qed

lemma trends_step_new:
  assumes "trends_inv tr xs" "row_id r \<notin> trend_id ` set tr"
  shows "trends_inv (trends_step tr r) (xs @ [r])"
proof -
  let ?n = "\<lparr>trend_id = row_id r, trend_title = row_title r, data_points = [point_of r]\<rparr>"
  have same: "map (\<lambda>t. if trend_id t = row_id r
                 then t\<lparr>data_points := data_points t @ [point_of r], trend_title := row_title r\<rparr>
                 else t) tr = tr"
    using assms(2) by (induction tr) auto
  have step: "trends_step tr r = tr @ [?n]"
    using assms(2) by (simp add: trends_step_def same)
  have notin: "row_id r \<notin> row_id ` set xs"
    using assms by (simp add: trends_inv_def)
  have nx: "row_id x \<noteq> row_id r" if "x \<in> set xs" for x
  proof
    assume "row_id x = row_id r"
    with that have "row_id r \<in> row_id ` set xs" by (metis imageI)
    with notin show False by simp
  qed
  have none: "filter (\<lambda>x. row_id x = row_id r) xs = []"
    using nx by (simp add: filter_empty_conv)
  have other: "trend_id t \<noteq> row_id r" if "t \<in> set tr" for t
  proof
    assume "trend_id t = row_id r"
    with that have "row_id r \<in> trend_id ` set tr" by (metis imageI)
    with assms(2) show False by simp
  qed
  have d: "distinct (map trend_id (tr @ [?n]))"
    using assms by (simp add: trends_inv_def)
  have s: "trend_id ` set (tr @ [?n]) = row_id ` set (xs @ [r])"
    using assms(1) by (simp add: trends_inv_def)
  have p: "\<forall>t \<in> set (tr @ [?n]).
          data_points t = map point_of (filter (\<lambda>x. row_id x = trend_id t) (xs @ [r])) \<and>
          trend_title t = row_title (last (filter (\<lambda>x. row_id x = trend_id t) (xs @ [r])))"
  proof
    fix t assume "t \<in> set (tr @ [?n])"
    then consider "t \<in> set tr" | "t = ?n" by auto
    then show "data_points t = map point_of (filter (\<lambda>x. row_id x = trend_id t) (xs @ [r])) \<and>
          trend_title t = row_title (last (filter (\<lambda>x. row_id x = trend_id t) (xs @ [r])))"
    proof cases
      case 1
      then have ne: "row_id r \<noteq> trend_id t" using other [of t] by simp
      from 1 assms(1) have
        "data_points t = map point_of (filter (\<lambda>x. row_id x = trend_id t) xs) \<and>
         trend_title t = row_title (last (filter (\<lambda>x. row_id x = trend_id t) xs))"
        unfolding trends_inv_def by blast
      with ne show ?thesis by simp
    next
      case 2
      then show ?thesis using none by simp
    qed
  qed
  show ?thesis
    unfolding step trends_inv_def using d s p by blast
qed

lemma trends_inv_foldl: "trends_inv (foldl trends_step [] xs) xs"
proof (induction xs rule: rev_induct)
  case Nil
  show ?case by (simp add: trends_inv_def)
next
  case (snoc r xs)
  show ?case
  proof (cases "row_id r \<in> trend_id ` set (foldl trends_step [] xs)")
    case True
    with snoc show ?thesis by (simp add: trends_step_known)
  next
    case False
    with snoc show ?thesis by (simp add: trends_step_new)
  qed
qed

lemma insort_key_same_id:
  assumes "\<forall>y \<in> set ys. row_id y = i" "row_id x = i"
  shows "insort_key (\<lambda>r. (row_id r, row_generated_at r)) x ys = insort_key row_generated_at x ys"
  using assms by (induction ys) (auto simp: less_eq_prod_def)

lemma sort_key_same_id:
  "\<forall>y \<in> set ys. row_id y = i \<Longrightarrow>
   sort_key (\<lambda>r. (row_id r, row_generated_at r)) ys = sort_key row_generated_at ys"
proof (induction ys)
  case Nil
  show ?case by simp
next
  case (Cons y ys)
  then have "insort_key (\<lambda>r. (row_id r, row_generated_at r)) y (sort_key row_generated_at ys)
             = insort_key row_generated_at y (sort_key row_generated_at ys)"
    by (intro insort_key_same_id [where i = i]) auto
  with Cons show ?case by simp
qed

lemma trend_rows_filter:
  "filter (\<lambda>r. row_id r = i) (trend_rows st) =
     sort_key row_generated_at (filter (\<lambda>r. row_id r = i) (opportunities st))"
  unfolding trend_rows_def
  by (simp add: filter_sort sort_key_same_id [where i = i])

lemma get_opportunity_trends_inv:
  "distinct (map trend_id (get_opportunity_trends st)) \<and>
   trend_id ` set (get_opportunity_trends st) = row_id ` set (opportunities st) \<and>
   (\<forall>t \<in> set (get_opportunity_trends st).
      data_points t =
        map point_of (sort_key row_generated_at
          (filter (\<lambda>r. row_id r = trend_id t) (opportunities st))) \<and>
      trend_title t =
        row_title (last (sort_key row_generated_at
          (filter (\<lambda>r. row_id r = trend_id t) (opportunities st)))))"
proof -
  have inv: "trends_inv (get_opportunity_trends st) (trend_rows st)"
    unfolding get_opportunity_trends_def by (rule trends_inv_foldl)
  have "row_id ` set (trend_rows st) = row_id ` set (opportunities st)"
    by (simp add: trend_rows_def)
  with inv show ?thesis
    unfolding trends_inv_def trend_rows_filter by simp
qed

lemma two_runs_trend:
  assumes "now1 < now2"
  shows "get_opportunity_trends
          (snd (save_opportunity_run (snd (save_opportunity_run empty_storage [terraform_v1] 5 None now1))
                  [terraform_v2] 3 None now2))
        = [\<lparr>trend_id = ''terraform-drift-detector'', trend_title = ''Terraform Drift Detector v2'',
            data_points = [\<lparr>dp_run_id = 1, dp_confidence = 82, dp_generated_at = now1\<rparr>,
                           \<lparr>dp_run_id = 2, dp_confidence = 90, dp_generated_at = now2\<rparr>]\<rparr>]"
  using assms
  by (simp add: get_opportunity_trends_def trend_rows_def save_opportunity_run_def empty_storage_def
      terraform_v1_def terraform_v2_def int64_def bind_not_null_def replace_opportunity_def
      opportunity_to_row_def trends_step_def point_of_def less_eq_prod_def Let_def)

text \<open>
  Claim C8. For every state of the store, \<open>get_opportunity_trends\<close> returns one entry per
  distinct opportunity id; the points of an entry are those of the stored rows with its
  id, one each, in ascending order of \<open>generated_at\<close>; its title is that of the last of
  these rows, a most recent one. And persisting the opportunity of the test suite with
  confidence 82 and then, at a later time, its second version with confidence 90 gives one
  entry with the two points 82 then 90 and the title of the second version.
\<close>

theorem get_opportunity_trends_groups:
  "distinct (map trend_id (get_opportunity_trends st)) \<and>
   trend_id ` set (get_opportunity_trends st) = row_id ` set (opportunities st) \<and>
   (\<forall>t \<in> set (get_opportunity_trends st).
      data_points t =
        map point_of (sort_key row_generated_at
          (filter (\<lambda>r. row_id r = trend_id t) (opportunities st))) \<and>
      sorted (map dp_generated_at (data_points t)) \<and>
      trend_title t =
        row_title (last (sort_key row_generated_at
          (filter (\<lambda>r. row_id r = trend_id t) (opportunities st))))) \<and>
   (now1 < now2 \<longrightarrow>
      get_opportunity_trends
          (snd (save_opportunity_run (snd (save_opportunity_run empty_storage [terraform_v1] 5 None now1))
                  [terraform_v2] 3 None now2))
        = [\<lparr>trend_id = ''terraform-drift-detector'', trend_title = ''Terraform Drift Detector v2'',
            data_points = [\<lparr>dp_run_id = 1, dp_confidence = 82, dp_generated_at = now1\<rparr>,
                           \<lparr>dp_run_id = 2, dp_confidence = 90, dp_generated_at = now2\<rparr>]\<rparr>])"
proof -
  have srt: "sorted (map dp_generated_at (map point_of (sort_key row_generated_at rs)))" for rs
  proof -
    have "map dp_generated_at (map point_of (sort_key row_generated_at rs))
            = map row_generated_at (sort_key row_generated_at rs)"
      by (simp add: point_of_def comp_def)
    then show ?thesis by (simp only: sorted_sort_key)
  qed
  show ?thesis
    using get_opportunity_trends_inv [of st] two_runs_trend [of now1 now2] srt
    by auto
qed

text \<open>
  The theorem at the store of the two runs, written on the first and the eighth of January.
\<close>

theorem get_opportunity_trends_groups_witness:
  "''2025-01-01T00:00:00+00:00'' < ''2025-01-08T00:00:00+00:00'' \<and>
   \<lparr>trend_id = ''terraform-drift-detector'', trend_title = ''Terraform Drift Detector v2'',
     data_points = [\<lparr>dp_run_id = 1, dp_confidence = 82, dp_generated_at = ''2025-01-01T00:00:00+00:00''\<rparr>,
                    \<lparr>dp_run_id = 2, dp_confidence = 90, dp_generated_at = ''2025-01-08T00:00:00+00:00''\<rparr>]\<rparr>
     \<in> set (get_opportunity_trends
          (snd (save_opportunity_run
             (snd (save_opportunity_run empty_storage [terraform_v1] 5 None ''2025-01-01T00:00:00+00:00''))
             [terraform_v2] 3 None ''2025-01-08T00:00:00+00:00''))) \<and>
   sorted (map dp_generated_at
     [\<lparr>dp_run_id = 1, dp_confidence = 82, dp_generated_at = ''2025-01-01T00:00:00+00:00''\<rparr>,
      \<lparr>dp_run_id = 2, dp_confidence = 90, dp_generated_at = ''2025-01-08T00:00:00+00:00''\<rparr>])"
proof -
  let ?n1 = "''2025-01-01T00:00:00+00:00''" and ?n2 = "''2025-01-08T00:00:00+00:00''"
  let ?st = "snd (save_opportunity_run
             (snd (save_opportunity_run empty_storage [terraform_v1] 5 None ?n1))
             [terraform_v2] 3 None ?n2)"
  let ?t = "\<lparr>trend_id = ''terraform-drift-detector'', trend_title = ''Terraform Drift Detector v2'',
     data_points = [\<lparr>dp_run_id = 1, dp_confidence = 82, dp_generated_at = ?n1\<rparr>,
                    \<lparr>dp_run_id = 2, dp_confidence = 90, dp_generated_at = ?n2\<rparr>]\<rparr>"
  have lt: "?n1 < ?n2" by code_simp
  note inst = get_opportunity_trends_groups [of ?st ?n1 ?n2]
  from inst lt have eq: "get_opportunity_trends ?st = [?t]" by blast
  then have mem: "?t \<in> set (get_opportunity_trends ?st)" by simp
  with inst have "sorted (map dp_generated_at (data_points ?t))" by blast
  then have "sorted (map dp_generated_at
     [\<lparr>dp_run_id = 1, dp_confidence = 82, dp_generated_at = ?n1\<rparr>,
      \<lparr>dp_run_id = 2, dp_confidence = 90, dp_generated_at = ?n2\<rparr>])" by simp
  with lt mem show ?thesis by blast
qed

text \<open>
  Claim C7 fails on the code for the evidence rows. \<open>save_opportunity_run\<close> writes the
  opportunity with \<open>INSERT OR REPLACE\<close> and its evidence with a plain \<open>INSERT\<close>. When a
  run holds the same opportunity twice, the second write meets its own \<open>(id, run_id)\<close>:
  one opportunity row remains, and the evidence rows of both writes remain, so that the
  evidence of the opportunity is stored twice.
\<close>

theorem save_opportunity_run_duplicates_evidence:
  "case save_opportunity_run empty_storage [terraform_v1, terraform_v1] 5 None now of
     (Inr rid, st) \<Rightarrow>
        length (filter (\<lambda>r. row_id r = ''terraform-drift-detector'' \<and> row_run_id r = rid)
                  (opportunities st)) = 1 \<and>
        map (\<lambda>e. (evr_source e, evr_item_title e, evr_url e, evr_score e))
          (filter (\<lambda>e. evr_opportunity_id e = ''terraform-drift-detector'' \<and> evr_run_id e = rid)
             (opportunity_evidence st))
          = [(''github_issue'', ''Drift detection broken'',
              ''https://github.com/hashicorp/terraform/issues/123'', 70),
             (''github_issue'', ''Drift detection broken'',
              ''https://github.com/hashicorp/terraform/issues/123'', 70)]
   | (Inl e, st) \<Rightarrow> False"
  by (simp add: save_opportunity_run_def empty_storage_def terraform_v1_def int64_def bind_not_null_def
      replace_opportunity_def opportunity_to_row_def Let_def)

section \<open>Properties of the repair loop\<close>

lemma store_opportunities_pair:
  "(fst (store_opportunities co items nd nr opps st), snd (store_opportunities co items nd nr opps st))
     = store_opportunities co items nd nr opps st"
  by simp

lemma report_requests:
  "\<exists>new. fst (snd (structured_opportunity_report co items nd nr reqs st)) = reqs @ new \<and> length new \<le> 2"
  by (auto simp: structured_opportunity_report_def complete_def split: option.splits sum.splits prod.splits)

lemma report_first_call_fails:
  assumes "items \<noteq> []" "co_llm co reqs (first_request co items) = None"
  shows "structured_opportunity_report co items nd nr reqs st
           = (Inr None, reqs @ [first_request co items], st)"
  using assms by (simp add: structured_opportunity_report_def complete_def)

lemma report_repair:
  assumes "items \<noteq> []" "co_llm co reqs (first_request co items) = Some r1"
    and "parse_opportunities_json (co_loads co) (resp_text r1) = Inl e1" "caught_first e1"
  shows "fst (snd (structured_opportunity_report co items nd nr reqs st))
           = reqs @ [first_request co items, repair_request co e1 (resp_text r1)]"
    and "(case co_llm co (reqs @ [first_request co items]) (repair_request co e1 (resp_text r1)) of
            None \<Rightarrow>
              fst (structured_opportunity_report co items nd nr reqs st) = Inr None \<and>
              snd (snd (structured_opportunity_report co items nd nr reqs st)) = st
          | Some r2 \<Rightarrow>
              (case parse_opportunities_json (co_loads co) (resp_text r2) of
                 Inl e2 \<Rightarrow>
                   (caught_second e2 \<longrightarrow>
                      fst (structured_opportunity_report co items nd nr reqs st) = Inr None \<and>
                      snd (snd (structured_opportunity_report co items nd nr reqs st)) = st)
               | Inr (opps, warnings) \<Rightarrow>
                   (fst (structured_opportunity_report co items nd nr reqs st),
                    snd (snd (structured_opportunity_report co items nd nr reqs st)))
                     = store_opportunities co items nd nr opps st))"
  using assms
  by (auto simp: structured_opportunity_report_def complete_def split: option.splits sum.splits prod.splits)

text \<open>
  Claim C1, as amended. A cycle makes at most two completion calls. When the first call
  raises \<open>LLMError\<close>, the cycle returns \<open>None\<close> after that one call: no repair request is
  made. When the first response fails to parse with a \<open>ValueError\<close> or a JSON decode
  error, exactly one further request is made; its content is the repair template filled
  with the text of that error and the first 500 characters of the first response, and its
  temperature is lower than that of the first request. The parser runs again on the
  answer: when the repair call raises \<open>LLMError\<close>, or its answer fails to parse with a
  \<open>ValueError\<close> or a JSON decode error, the cycle returns \<open>None\<close> and leaves the store as
  it was; when it parses, the cycle goes on as after a first success.
\<close>

theorem structured_opportunity_report_repair_once:
  "(\<exists>new. fst (snd (structured_opportunity_report co items nd nr reqs st)) = reqs @ new \<and>
          length new \<le> 2) \<and>
   (items \<noteq> [] \<and> co_llm co reqs (first_request co items) = None \<longrightarrow>
      structured_opportunity_report co items nd nr reqs st
        = (Inr None, reqs @ [first_request co items], st)) \<and>
   (items \<noteq> [] \<and> co_llm co reqs (first_request co items) = Some r1 \<and>
    parse_opportunities_json (co_loads co) (resp_text r1) = Inl e1 \<and> caught_first e1 \<longrightarrow>
      fst (snd (structured_opportunity_report co items nd nr reqs st))
        = reqs @ [first_request co items, repair_request co e1 (resp_text r1)] \<and>
      req_user_prompt (repair_request co e1 (resp_text r1))
        = STRUCTURED_OPPORTUNITY_REPAIR (co_str_error co e1) (take 500 (resp_text r1)) \<and>
      req_temperature (repair_request co e1 (resp_text r1))
        < req_temperature (first_request co items) \<and>
      (case co_llm co (reqs @ [first_request co items]) (repair_request co e1 (resp_text r1)) of
         None \<Rightarrow>
           fst (structured_opportunity_report co items nd nr reqs st) = Inr None \<and>
           snd (snd (structured_opportunity_report co items nd nr reqs st)) = st
       | Some r2 \<Rightarrow>
           (case parse_opportunities_json (co_loads co) (resp_text r2) of
              Inl e2 \<Rightarrow>
                (caught_second e2 \<longrightarrow>
                   fst (structured_opportunity_report co items nd nr reqs st) = Inr None \<and>
                   snd (snd (structured_opportunity_report co items nd nr reqs st)) = st)
            | Inr (opps, warnings) \<Rightarrow>
                (fst (structured_opportunity_report co items nd nr reqs st),
                 snd (snd (structured_opportunity_report co items nd nr reqs st)))
                  = store_opportunities co items nd nr opps st)))"
proof (intro conjI impI)
  show "\<exists>new. fst (snd (structured_opportunity_report co items nd nr reqs st)) = reqs @ new \<and>
          length new \<le> 2"
    by (rule report_requests)
next
  assume "items \<noteq> [] \<and> co_llm co reqs (first_request co items) = None"
  then show "structured_opportunity_report co items nd nr reqs st
        = (Inr None, reqs @ [first_request co items], st)"
    by (simp add: report_first_call_fails)
next
  assume a: "items \<noteq> [] \<and> co_llm co reqs (first_request co items) = Some r1 \<and>
    parse_opportunities_json (co_loads co) (resp_text r1) = Inl e1 \<and> caught_first e1"
  then show "fst (snd (structured_opportunity_report co items nd nr reqs st))
        = reqs @ [first_request co items, repair_request co e1 (resp_text r1)]"
    by (intro report_repair(1)) simp_all
  from a show "case co_llm co (reqs @ [first_request co items]) (repair_request co e1 (resp_text r1)) of
         None \<Rightarrow>
           fst (structured_opportunity_report co items nd nr reqs st) = Inr None \<and>
           snd (snd (structured_opportunity_report co items nd nr reqs st)) = st
       | Some r2 \<Rightarrow>
           (case parse_opportunities_json (co_loads co) (resp_text r2) of
              Inl e2 \<Rightarrow>
                (caught_second e2 \<longrightarrow>
                   fst (structured_opportunity_report co items nd nr reqs st) = Inr None \<and>
                   snd (snd (structured_opportunity_report co items nd nr reqs st)) = st)
            | Inr (opps, warnings) \<Rightarrow>
                (fst (structured_opportunity_report co items nd nr reqs st),
                 snd (snd (structured_opportunity_report co items nd nr reqs st)))
                  = store_opportunities co items nd nr opps st)"
    by (intro report_repair(2)) simp_all
next
  show "req_user_prompt (repair_request co e1 (resp_text r1))
        = STRUCTURED_OPPORTUNITY_REPAIR (co_str_error co e1) (take 500 (resp_text r1))"
    by (simp add: repair_request_def)
next
  show "req_temperature (repair_request co e1 (resp_text r1))
        < req_temperature (first_request co items)"
    by (simp add: repair_request_def first_request_def)
qed

text \<open>
  The theorem at a provider whose first call raises, and at a provider that answers twice
  with text that is no JSON array.
\<close>

theorem structured_opportunity_report_repair_once_witness:
  "[test_item] \<noteq> [] \<and>
   co_llm (test_collaborators [None]) [] (first_request (test_collaborators [None]) [test_item]) = None \<and>
   structured_opportunity_report (test_collaborators [None]) [test_item] ''d'' ''r'' [] empty_storage
     = (Inr None, [first_request (test_collaborators [None]) [test_item]], empty_storage) \<and>
   co_llm (test_collaborators [Some ''not json ['', Some ''still not json''])
       [] (first_request (test_collaborators [Some ''not json ['', Some ''still not json'']) [test_item])
     = Some \<lparr>resp_text = ''not json ['', resp_input_tokens = 0, resp_output_tokens = 0,
              resp_model = ''scripted''\<rparr> \<and>
   parse_opportunities_json (co_loads (test_collaborators [Some ''not json ['', Some ''still not json'']))
       ''not json [''
     = Inl (ValueError UnbalancedBrackets) \<and>
   caught_first (ValueError UnbalancedBrackets) \<and>
   fst (snd (structured_opportunity_report
               (test_collaborators [Some ''not json ['', Some ''still not json''])
               [test_item] ''d'' ''r'' [] empty_storage))
     = [first_request (test_collaborators [Some ''not json ['', Some ''still not json'']) [test_item],
        repair_request (test_collaborators [Some ''not json ['', Some ''still not json''])
          (ValueError UnbalancedBrackets) ''not json [''] \<and>
   fst (structured_opportunity_report
               (test_collaborators [Some ''not json ['', Some ''still not json''])
               [test_item] ''d'' ''r'' [] empty_storage) = Inr None"
proof -
  let ?c1 = "test_collaborators [None]"
  let ?c2 = "test_collaborators [Some ''not json ['', Some ''still not json'']"
  let ?r1 = "\<lparr>resp_text = ''not json ['', resp_input_tokens = 0, resp_output_tokens = 0,
              resp_model = ''scripted''\<rparr>"
  have 1: "[test_item] \<noteq> []" by simp
  have 2: "co_llm ?c1 [] (first_request ?c1 [test_item]) = None"
    by (simp add: test_collaborators_def scripted_llm_def)
  have 3: "co_llm ?c2 [] (first_request ?c2 [test_item]) = Some ?r1"
    by (simp add: test_collaborators_def scripted_llm_def)
  have 4: "parse_opportunities_json (co_loads ?c2) ''not json ['' = Inl (ValueError UnbalancedBrackets)"
    by code_simp
  have 5: "caught_first (ValueError UnbalancedBrackets)" by simp
  have 6: "co_llm ?c2 ([] @ [first_request ?c2 [test_item]])
             (repair_request ?c2 (ValueError UnbalancedBrackets) ''not json ['')
           = Some \<lparr>resp_text = ''still not json'', resp_input_tokens = 0, resp_output_tokens = 0,
              resp_model = ''scripted''\<rparr>"
    by (simp add: test_collaborators_def scripted_llm_def)
  have 7: "parse_opportunities_json (co_loads ?c2) ''still not json'' = Inl (ValueError NoJsonArray)"
    by code_simp
  have a: "structured_opportunity_report ?c1 [test_item] ''d'' ''r'' [] empty_storage
     = (Inr None, [first_request ?c1 [test_item]], empty_storage)"
    using structured_opportunity_report_repair_once [of ?c1 "[test_item]" "''d''" "''r''" "[]" empty_storage]
      1 2 by simp
  have b: "fst (snd (structured_opportunity_report ?c2 [test_item] ''d'' ''r'' [] empty_storage))
     = [first_request ?c2 [test_item], repair_request ?c2 (ValueError UnbalancedBrackets) ''not json [''] \<and>
     fst (structured_opportunity_report ?c2 [test_item] ''d'' ''r'' [] empty_storage) = Inr None"
    using structured_opportunity_report_repair_once
        [of ?c2 "[test_item]" "''d''" "''r''" "[]" empty_storage ?r1 "ValueError UnbalancedBrackets"]
      1 3 4 5 6 7 by (simp add: caught_second_def)
  show ?thesis using 1 2 3 4 5 a b by blast
qed

text \<open>
  Claim C1 as stated fails for the first of its three reasons: a provider whose first call
  raises \<open>LLMError\<close> is called once, and no repair request follows.
\<close>

theorem structured_opportunity_report_repair_once_counterexample:
  "co_llm (test_collaborators [None, Some ''[]'']) []
       (first_request (test_collaborators [None, Some ''[]'']) [test_item]) = None \<and>
   structured_opportunity_report (test_collaborators [None, Some ''[]'']) [test_item]
       ''2025-01-01T00:00:00+00:00'' ''2025-01-01T00:00:01+00:00'' [] empty_storage
     = (Inr None, [first_request (test_collaborators [None, Some ''[]'']) [test_item]], empty_storage)"
  by code_simp

end
